theory Spec2Isabelle
  imports Main
begin

section \<open>JavaScript strings and thrown values\<close>

text \<open>
  Strings are \<^typ>\<open>string\<close>. A thrown value is either an \<open>Error\<close> object with its
  message, or any other value, kept as what \<open>String(value)\<close> yields.
\<close>

datatype exn = Error string | Thrown string

text \<open>\<^verbatim>\<open>error instanceof Error ? error.message : String(error)\<close>\<close>

fun errorMessage :: "exn \<Rightarrow> string" where
  "errorMessage (Error m) = m"
| "errorMessage (Thrown v) = v"

text \<open>
  \<^verbatim>\<open>(error as Error).message\<close> inside a template literal: a value that is not an
  \<open>Error\<close> has no message, and the template prints \<open>undefined\<close>.
\<close>

fun castMessage :: "exn \<Rightarrow> string" where
  "castMessage (Error m) = m"
| "castMessage (Thrown v) = ''undefined''"

text \<open>\<^verbatim>\<open>s.includes(sub)\<close>: \<open>sub\<close> occurs in \<open>s\<close> as a contiguous substring.\<close>

fun startsWith :: "string \<Rightarrow> string \<Rightarrow> bool" where
  "startsWith s [] = True"
| "startsWith [] (c # cs) = False"
| "startsWith (x # xs) (c # cs) = (x = c \<and> startsWith xs cs)"

fun includesStr :: "string \<Rightarrow> string \<Rightarrow> bool" where
  "includesStr [] sub = (sub = [])"
| "includesStr (x # xs) sub = (startsWith (x # xs) sub \<or> includesStr xs sub)"

text \<open>\<^verbatim>\<open>s.replace(':', '')\<close> with a string pattern removes the first occurrence only.\<close>

fun removeFirst :: "char \<Rightarrow> string \<Rightarrow> string" where
  "removeFirst c [] = []"
| "removeFirst c (x # xs) = (if x = c then xs else x # removeFirst c xs)"

text \<open>\<^verbatim>\<open>s.replace(/^0+/, '')\<close> removes the zeros the string starts with.\<close>

definition stripLeadingZeros :: "string \<Rightarrow> string" where
  "stripLeadingZeros s = dropWhile (\<lambda>c. c = CHR ''0'') s"

text \<open>\<^verbatim>\<open>String(n)\<close> for a non-negative integer, and \<^verbatim>\<open>s.padStart(n, c)\<close>.\<close>

definition digitChar :: "nat \<Rightarrow> char" where
  "digitChar d = ''0123456789'' ! d"

fun stringOfNat :: "nat \<Rightarrow> string" where
  "stringOfNat n =
     (if n < 10 then [digitChar n] else stringOfNat (n div 10) @ [digitChar (n mod 10)])"

declare stringOfNat.simps [simp del]

definition padStart :: "nat \<Rightarrow> char \<Rightarrow> string \<Rightarrow> string" where
  "padStart n c s = replicate (n - length s) c @ s"

definition isDigit :: "char \<Rightarrow> bool" where
  "isDigit c = (c \<in> set ''0123456789'')"

section \<open>The time entry format (events.ts, formatTimeForInput)\<close>

text \<open>
  \<^verbatim>\<open>
  private formatTimeForInput(time: string): string {
    const timeWithoutColon = time.replace(':', '');
    return timeWithoutColon.replace(/^0+/, '') || '0';
  }
  \<close>
  The empty string is falsy, so \<open>||\<close> replaces it by \<open>'0'\<close>.
\<close>

definition formatTimeForInput :: "string \<Rightarrow> string" where
  "formatTimeForInput time =
     (let timeWithoutColon = removeFirst CHR '':'' time;
          stripped = stripLeadingZeros timeWithoutColon
      in if stripped = [] then ''0'' else stripped)"

text \<open>
  \<^verbatim>\<open>s.toLowerCase()\<close> and \<^verbatim>\<open>s.trim()\<close>, on ASCII text (a \<^typ>\<open>char\<close> is a byte).
\<close>

definition toLowerChar :: "char \<Rightarrow> char" where
  "toLowerChar c =
     (case map_of (zip ''ABCDEFGHIJKLMNOPQRSTUVWXYZ'' ''abcdefghijklmnopqrstuvwxyz'') c of
        Some l \<Rightarrow> l
      | None \<Rightarrow> c)"

definition toLowerCase :: "string \<Rightarrow> string" where
  "toLowerCase s = map toLowerChar s"

definition isSpace :: "char \<Rightarrow> bool" where
  "isSpace c = (c \<in> set [CHR '' '', CHR 0x09, CHR 0x0A, CHR 0x0B, CHR 0x0C, CHR 0x0D])"

definition trim :: "string \<Rightarrow> string" where
  "trim s = rev (dropWhile isSpace (rev (dropWhile isSpace s)))"

text \<open>The check mark and the cross of the log lines, as their UTF-8 bytes.\<close>

definition checkMark :: string where
  "checkMark = [CHR 0xE2, CHR 0x9C, CHR 0x93]"

definition crossMark :: string where
  "crossMark = [CHR 0xE2, CHR 0x9C, CHR 0x97]"

section \<open>Asynchronous actions on the browser\<close>

text \<open>
  Everything the program does to the outside world is recorded, in order, in a trace:
  the console lines it prints and the calls it makes on the Puppeteer page, the browser
  and the code generator.
\<close>

datatype event =
    ConsoleLog string
  | ConsoleWarn string
  | ConsoleError string
  | WaitForSelector string nat
  | Click string nat
  | TypeText string string
  | KeyPress string
  | Query string
  | ElementClick nat
  | Evaluate string
  | Goto string nat
  | WaitForNavigation nat
  | ReadUrl
  | Sleep nat
  | Launch
  | Close
  | GenerateTotp

text \<open>
  The state of a run is the state of the outside world (browser, page, clock), of an
  arbitrary type \<open>'p\<close>, and the trace so far. An action (an \<open>async\<close> function, awaited)
  takes the state and either resolves with a value or rejects with a thrown value.
\<close>

type_synonym 'p state = "'p \<times> event list"

type_synonym ('p, 'a) action = "'p state \<Rightarrow> (exn + 'a) \<times> 'p state"

definition resolve :: "'a \<Rightarrow> ('p, 'a) action" where
  "resolve x s = (Inr x, s)"

definition throw :: "exn \<Rightarrow> ('p, 'a) action" where
  "throw e s = (Inl e, s)"

text \<open>\<open>await m f\<close>: run \<open>m\<close>; when it resolves, continue with \<open>f\<close> on its value.\<close>

definition await :: "('p, 'a) action \<Rightarrow> ('a \<Rightarrow> ('p, 'b) action) \<Rightarrow> ('p, 'b) action" where
  "await m f s = (case m s of (Inl e, s') \<Rightarrow> (Inl e, s') | (Inr x, s') \<Rightarrow> f x s')"

definition andThen :: "('p, 'a) action \<Rightarrow> ('p, 'b) action \<Rightarrow> ('p, 'b) action" where
  "andThen m k = await m (\<lambda>_. k)"

text \<open>A block of statements, run in order until one throws.\<close>

fun steps :: "('p, unit) action list \<Rightarrow> ('p, unit) action" where
  "steps [] = resolve ()"
| "steps (m # ms) = andThen m (steps ms)"

text \<open>\<^verbatim>\<open>try { m } catch (e) { h e }\<close>\<close>

definition tryCatch :: "('p, 'a) action \<Rightarrow> (exn \<Rightarrow> ('p, 'a) action) \<Rightarrow> ('p, 'a) action" where
  "tryCatch m h s = (case m s of (Inl e, s') \<Rightarrow> h e s' | (Inr x, s') \<Rightarrow> (Inr x, s'))"

definition emit :: "event \<Rightarrow> ('p, unit) action" where
  "emit ev s = (Inr (), (fst s, snd s @ [ev]))"

definition console_log :: "string \<Rightarrow> ('p, unit) action" where
  "console_log msg = emit (ConsoleLog msg)"

definition console_warn :: "string \<Rightarrow> ('p, unit) action" where
  "console_warn msg = emit (ConsoleWarn msg)"

definition console_error :: "string \<Rightarrow> ('p, unit) action" where
  "console_error msg = emit (ConsoleError msg)"

text \<open>
  The outside world, as the program reaches it through \<open>puppeteer-core\<close> and \<open>otplib\<close>.
  Each operation may throw and may change the world. \<open>pp_settle\<close> is what happens to
  the world while the program sleeps; \<open>pp_querySelectorAll\<close>, \<open>pp_textContent\<close> and
  \<open>pp_domClick\<close> are the document as the function passed to \<open>page.evaluate\<close> sees it,
  and \<open>pp_evaluateError\<close> is the failure of \<open>page.evaluate\<close> itself, if any.
  An element handle is a number. \<open>pp_totp\<close> is \<open>authenticator.generate\<close> of otplib
  and \<open>pp_today\<close> is the local date \<open>new Date()\<close> gives, with the month counted
  from 0 as \<open>getMonth\<close> does.
\<close>

record LocalDate =
  getFullYear :: nat
  getMonth :: nat
  getDate :: nat

record 'p Puppeteer =
  pp_launch :: "'p \<Rightarrow> (exn + unit) \<times> 'p"
  pp_close :: "'p \<Rightarrow> (exn + unit) \<times> 'p"
  pp_waitForSelector :: "string \<Rightarrow> nat \<Rightarrow> 'p \<Rightarrow> (exn + unit) \<times> 'p"
  pp_click :: "string \<Rightarrow> nat \<Rightarrow> 'p \<Rightarrow> (exn + unit) \<times> 'p"
  pp_type :: "string \<Rightarrow> string \<Rightarrow> 'p \<Rightarrow> (exn + unit) \<times> 'p"
  pp_press :: "string \<Rightarrow> 'p \<Rightarrow> (exn + unit) \<times> 'p"
  pp_query :: "string \<Rightarrow> 'p \<Rightarrow> (exn + nat option) \<times> 'p"
  pp_elementClick :: "nat \<Rightarrow> 'p \<Rightarrow> (exn + unit) \<times> 'p"
  pp_goto :: "string \<Rightarrow> nat \<Rightarrow> 'p \<Rightarrow> (exn + unit) \<times> 'p"
  pp_waitForNavigation :: "nat \<Rightarrow> 'p \<Rightarrow> (exn + unit) \<times> 'p"
  pp_url :: "'p \<Rightarrow> string"
  pp_settle :: "nat \<Rightarrow> 'p \<Rightarrow> 'p"
  pp_evaluateError :: "'p \<Rightarrow> exn option"
  pp_querySelectorAll :: "string \<Rightarrow> 'p \<Rightarrow> nat list"
  pp_textContent :: "nat \<Rightarrow> 'p \<Rightarrow> string option"
  pp_domClick :: "nat \<Rightarrow> 'p \<Rightarrow> 'p"
  pp_totp :: "string \<Rightarrow> 'p \<Rightarrow> exn + string"
  pp_today :: "'p \<Rightarrow> LocalDate"

text \<open>A call on the outside world: it is recorded, then the world answers.\<close>

definition call :: "event \<Rightarrow> ('p \<Rightarrow> (exn + 'a) \<times> 'p) \<Rightarrow> ('p, 'a) action" where
  "call ev f s = (case f (fst s) of (r, p') \<Rightarrow> (r, (p', snd s @ [ev])))"

definition waitForSelector :: "'p Puppeteer \<Rightarrow> string \<Rightarrow> nat \<Rightarrow> ('p, unit) action" where
  "waitForSelector PP selector timeout =
     call (WaitForSelector selector timeout) (pp_waitForSelector PP selector timeout)"

definition click :: "'p Puppeteer \<Rightarrow> string \<Rightarrow> nat \<Rightarrow> ('p, unit) action" where
  "click PP selector clickCount = call (Click selector clickCount) (pp_click PP selector clickCount)"

definition typeText :: "'p Puppeteer \<Rightarrow> string \<Rightarrow> string \<Rightarrow> ('p, unit) action" where
  "typeText PP selector text = call (TypeText selector text) (pp_type PP selector text)"

definition keyboardPress :: "'p Puppeteer \<Rightarrow> string \<Rightarrow> ('p, unit) action" where
  "keyboardPress PP key = call (KeyPress key) (pp_press PP key)"

definition query :: "'p Puppeteer \<Rightarrow> string \<Rightarrow> ('p, nat option) action" where
  "query PP selector = call (Query selector) (pp_query PP selector)"

definition elementClick :: "'p Puppeteer \<Rightarrow> nat \<Rightarrow> ('p, unit) action" where
  "elementClick PP element = call (ElementClick element) (pp_elementClick PP element)"

definition goto :: "'p Puppeteer \<Rightarrow> string \<Rightarrow> nat \<Rightarrow> ('p, unit) action" where
  "goto PP url timeout = call (Goto url timeout) (pp_goto PP url timeout)"

definition waitForNavigation :: "'p Puppeteer \<Rightarrow> nat \<Rightarrow> ('p, unit) action" where
  "waitForNavigation PP timeout = call (WaitForNavigation timeout) (pp_waitForNavigation PP timeout)"

definition pageUrl :: "'p Puppeteer \<Rightarrow> ('p, string) action" where
  "pageUrl PP = call ReadUrl (\<lambda>p. (Inr (pp_url PP p), p))"

text \<open>\<^verbatim>\<open>await new Promise(resolve => setTimeout(resolve, ms))\<close>\<close>

definition sleep :: "'p Puppeteer \<Rightarrow> nat \<Rightarrow> ('p, unit) action" where
  "sleep PP ms = call (Sleep ms) (\<lambda>p. (Inr (), pp_settle PP ms p))"

text \<open>
  \<open>page.evaluate(f, arg)\<close> runs \<open>f\<close> inside the page; \<open>f\<close> is given here as a function
  on the world.
\<close>

definition evaluate :: "'p Puppeteer \<Rightarrow> string \<Rightarrow> ('p \<Rightarrow> 'a \<times> 'p) \<Rightarrow> ('p, 'a) action" where
  "evaluate PP arg f =
     call (Evaluate arg)
       (\<lambda>p. case pp_evaluateError PP p of
               Some e \<Rightarrow> (Inl e, p)
             | None \<Rightarrow> (case f p of (x, p') \<Rightarrow> (Inr x, p')))"

section \<open>Core types (types.ts)\<close>

datatype EventType = Entrada | Salida

fun eventTypeText :: "EventType \<Rightarrow> string" where
  "eventTypeText Entrada = ''Entrada''"
| "eventTypeText Salida = ''Salida''"

record TimeSlot =
  time :: string
  type :: EventType

record EventResult = TimeSlot +
  success :: bool
  error :: "string option"

record Selectors =
  usernameInput :: string
  passwordInput :: string
  loginButton :: string
  totpInput :: string
  timeTrackingIcon :: string
  viewTimesheetLink :: string
  dateSelector :: string
  timeEventsButton :: string
  createButton :: string
  timeInput :: string
  typeDropdown :: string
  submitButton :: string

record Credentials =
  username :: string
  password :: string
  totpSecret :: string

datatype DayType = Friday | Regular

fun dayTypeText :: "DayType \<Rightarrow> string" where
  "dayTypeText Friday = ''friday''"
| "dayTypeText Regular = ''regular''"

record Schedules =
  friday :: "TimeSlot list"
  regular :: "TimeSlot list"

text \<open>The value of \<open>getCurrentSchedule()\<close>; \<open>availableSlots\<close> are the entries due now.\<close>

record Schedule =
  dayType :: DayType
  slots :: "TimeSlot list"
  availableSlots :: "TimeSlot list"

record BrowserConfig =
  headless :: bool
  executablePath :: string
  defaultTimeout :: nat

record RetryConfig =
  maxAttempts :: nat
  delayMs :: nat

record AppConfig =
  url :: string
  userId :: string
  credentials :: Credentials
  browser :: BrowserConfig
  selectors :: Selectors
  schedules :: Schedules
  retry :: "RetryConfig option"

section \<open>Creating time events (events.ts, class TimeEventCreator)\<close>

text \<open>The double quote and the backslash, for the strings that contain them.\<close>

definition dq :: string where
  "dq = [CHR 0x22]"

definition bs :: string where
  "bs = [CHR 0x5C]"

text \<open>
  \<open>clickTimeEventsButton\<close>, \<open>clickCreateButton\<close> and \<open>submitEvent\<close>: wait for the
  control (10 s), click it, sleep; any failure is thrown again under the stage's name.
\<close>

definition clickTimeEventsButton :: "'p Puppeteer \<Rightarrow> Selectors \<Rightarrow> ('p, unit) action" where
  "clickTimeEventsButton PP sels =
     tryCatch
       (steps [waitForSelector PP (timeEventsButton sels) 10000,
               click PP (timeEventsButton sels) 1,
               sleep PP 1500])
       (\<lambda>err. throw (Error (''Failed to click Time Events button: '' @ errorMessage err)))"

definition clickCreateButton :: "'p Puppeteer \<Rightarrow> Selectors \<Rightarrow> ('p, unit) action" where
  "clickCreateButton PP sels =
     tryCatch
       (steps [waitForSelector PP (createButton sels) 10000,
               click PP (createButton sels) 1,
               sleep PP 1500])
       (\<lambda>err. throw (Error (''Failed to click Create button: '' @ errorMessage err)))"

definition submitEvent :: "'p Puppeteer \<Rightarrow> Selectors \<Rightarrow> ('p, unit) action" where
  "submitEvent PP sels =
     tryCatch
       (steps [waitForSelector PP (submitButton sels) 10000,
               click PP (submitButton sels) 1,
               console_log ''  - Submitted event'',
               sleep PP 2000])
       (\<lambda>err. throw (Error (''Failed to submit event: '' @ errorMessage err)))"

text \<open>
  \<open>fillTimeAndType\<close>, first part (up to the line that announces strategy 1): the time
  field is filled with the compact time, and the type selection is announced.
\<close>

definition fillTime :: "'p Puppeteer \<Rightarrow> Selectors \<Rightarrow> string \<Rightarrow> EventType \<Rightarrow> ('p, unit) action" where
  "fillTime PP sels time' type' =
     (let formattedTime = formatTimeForInput time' in
      steps [waitForSelector PP (timeInput sels) 10000,
             console_log (''  - Converting time: '' @ time' @ '' -> '' @ formattedTime),
             click PP (timeInput sels) 3,
             typeText PP (timeInput sels) formattedTime,
             console_log (''  - Filled time: '' @ formattedTime),
             sleep PP 500,
             console_log (''  - Selecting type: '' @ eventTypeText type'),
             console_log ''  - Strategy 1: Typing directly in input field''])"

text \<open>Strategy 1, the body of the inner \<open>try\<close>: the type is typed into the field.\<close>

definition typeDirectly :: "'p Puppeteer \<Rightarrow> Selectors \<Rightarrow> EventType \<Rightarrow> ('p, unit) action" where
  "typeDirectly PP sels type' =
     steps [waitForSelector PP (typeDropdown sels) 10000,
            click PP (typeDropdown sels) 1,
            sleep PP 500,
            click PP (typeDropdown sels) 3,
            typeText PP (typeDropdown sels) (eventTypeText type'),
            console_log (''  - Typed '' @ dq @ eventTypeText type' @ dq @ '' in dropdown input''),
            sleep PP 1000,
            keyboardPress PP ''Enter'',
            console_log ''  - Pressed Enter to confirm selection'',
            sleep PP 500,
            console_log (''  '' @ checkMark @ '' Type selected successfully using direct input'')]"

text \<open>Strategy 2: the fixed candidate selectors of each type (\<open>selectorsToTry\<close>).\<close>

definition selectorsToTry :: "EventType \<Rightarrow> string list" where
  "selectorsToTry type' =
     (if type' = Entrada
      then [''#__item15-titleText'', ''#__item15-content > div'', ''#__item15'',
            ''#sap'' @ bs @ ''.sf'' @ bs @ ''.attendancerecording'' @ bs
              @ ''.timesheets---timeRecordingView--vh-timeEventTypeCode-popup'']
      else [''#__item19'', ''#__item19-titleText'', ''#__item19-content > div''])"

text \<open>
  The loop over the candidates: the first one that is found and whose click does not
  throw ends the loop with \<open>success = true\<close>; a candidate that is absent, or whose
  lookup or click throws, is logged and skipped.
\<close>

fun trySelectors :: "'p Puppeteer \<Rightarrow> string list \<Rightarrow> ('p, bool) action" where
  "trySelectors PP [] = resolve False"
| "trySelectors PP (selector # rest) =
     await
       (tryCatch
          (andThen (console_log (''  - Trying selector: '' @ selector))
             (await (query PP selector)
                (\<lambda>element. case element of
                    Some h \<Rightarrow>
                      andThen (elementClick PP h)
                        (andThen (console_log (''  '' @ checkMark
                                     @ '' Successfully clicked selector: '' @ selector))
                           (resolve True))
                  | None \<Rightarrow>
                      andThen (console_log (''  - Selector not found: '' @ selector))
                        (resolve False))))
          (\<lambda>e. andThen (console_log (''  - Selector failed: '' @ selector @ '' - ''
                           @ errorMessage e))
                  (resolve False)))
       (\<lambda>success. if success then resolve True else trySelectors PP rest)"

text \<open>
  Strategy 3: the function evaluated inside the page. It goes through the generic option
  selectors in order, and through the elements each one matches, and clicks the first
  element whose lower-cased, trimmed text equals or contains the lower-cased type.
\<close>

definition optionSelectors :: "string list" where
  "optionSelectors =
     [''li[role='' @ dq @ ''option'' @ dq @ '']'', ''ui5-li'',
      ''[role='' @ dq @ ''option'' @ dq @ '']'', ''li'', ''.sapMSelectListItem'',
      ''.sapMListItem'', ''[id*='' @ dq @ ''item'' @ dq @ '']'']"

definition optionMatches :: "'p Puppeteer \<Rightarrow> 'p \<Rightarrow> string \<Rightarrow> nat \<Rightarrow> bool" where
  "optionMatches PP p targetType element =
     (let text = (case pp_textContent PP element p of
                    None \<Rightarrow> []
                  | Some t \<Rightarrow> trim (toLowerCase t))
      in text = toLowerCase targetType \<or> includesStr text (toLowerCase targetType))"

definition searchByText :: "'p Puppeteer \<Rightarrow> string \<Rightarrow> 'p \<Rightarrow> bool \<times> 'p" where
  "searchByText PP targetType p =
     (case find (optionMatches PP p targetType)
             (concat (map (\<lambda>selector. pp_querySelectorAll PP selector p) optionSelectors)) of
        Some element \<Rightarrow> (True, pp_domClick PP element p)
      | None \<Rightarrow> (False, p))"

definition searchOptions :: "'p Puppeteer \<Rightarrow> EventType \<Rightarrow> ('p, unit) action" where
  "searchOptions PP type' =
     andThen (console_log ''  - Strategy 3: Searching by text content'')
       (await (evaluate PP (eventTypeText type') (searchByText PP (eventTypeText type')))
          (\<lambda>typeSelected.
             if \<not> typeSelected
             then throw (Error (''All strategies failed to select type: '' @ eventTypeText type'))
             else console_log (''  '' @ checkMark @ '' Type selected using text search'')))"

text \<open>
  Strategy 2, the start of the second \<open>try\<close>: the dropdown is clicked open and the
  candidates are tried; the value is the flag \<open>success\<close>.
\<close>

definition tryClickSelection :: "'p Puppeteer \<Rightarrow> Selectors \<Rightarrow> EventType \<Rightarrow> ('p, bool) action" where
  "tryClickSelection PP sels type' =
     andThen (click PP (typeDropdown sels) 1)
       (andThen (sleep PP 1000)
          (trySelectors PP (selectorsToTry type')))"

text \<open>
  The body of the second \<open>try\<close>: strategy 2, and only when no candidate was clicked
  the text search of strategy 3.
\<close>

definition clickBasedSelection :: "'p Puppeteer \<Rightarrow> Selectors \<Rightarrow> EventType \<Rightarrow> ('p, unit) action" where
  "clickBasedSelection PP sels type' =
     await (tryClickSelection PP sels type')
       (\<lambda>success. if \<not> success then searchOptions PP type' else resolve ())"

text \<open>The type selection: strategy 1, and on its failure the other two.\<close>

definition selectType :: "'p Puppeteer \<Rightarrow> Selectors \<Rightarrow> EventType \<Rightarrow> ('p, unit) action" where
  "selectType PP sels type' =
     tryCatch (typeDirectly PP sels type')
       (\<lambda>directInputError.
          andThen (console_log (''  - Strategy 1 failed: '' @ errorMessage directInputError))
            (andThen (console_log ''  - Strategy 2: Trying click-based selection'')
               (tryCatch (clickBasedSelection PP sels type')
                  (\<lambda>clickError.
                     throw (Error (''Failed to select type after trying all strategies: ''
                                     @ errorMessage clickError))))))"

definition fillTimeAndType :: "'p Puppeteer \<Rightarrow> Selectors \<Rightarrow> string \<Rightarrow> EventType \<Rightarrow> ('p, unit) action" where
  "fillTimeAndType PP sels time' type' =
     tryCatch
       (steps [fillTime PP sels time' type',
               selectType PP sels type',
               sleep PP 500])
       (\<lambda>err. throw (Error (''Failed to fill time and type: '' @ errorMessage err)))"

text \<open>\<open>createEvent\<close>: the four stages; whatever they throw becomes a failed result.\<close>

definition createEvent :: "'p Puppeteer \<Rightarrow> Selectors \<Rightarrow> TimeSlot \<Rightarrow> ('p, EventResult) action" where
  "createEvent PP sels slot =
     tryCatch
       (andThen
          (steps [clickTimeEventsButton PP sels,
                  clickCreateButton PP sels,
                  fillTimeAndType PP sels (time slot) (type slot),
                  submitEvent PP sels])
          (resolve \<lparr>time = time slot, type = type slot, success = True, error = None\<rparr>))
       (\<lambda>err. resolve \<lparr>time = time slot, type = type slot, success = False,
                        error = Some (errorMessage err)\<rparr>)"

text \<open>
  \<open>createAllEvents\<close>: the loop over the slots, with the number of slots \<open>n\<close> and the
  index \<open>i\<close> for the log lines. The function called for each slot is a parameter, so that
  the \<open>catch\<close> of the loop can be studied for any \<open>createEvent\<close>, also one that throws.
  An absent \<open>result.error\<close> prints as \<open>undefined\<close>.
\<close>

fun createAllEvents_loop ::
  "(TimeSlot \<Rightarrow> ('p, EventResult) action) \<Rightarrow> 'p Puppeteer \<Rightarrow> nat \<Rightarrow> nat \<Rightarrow> TimeSlot list
     \<Rightarrow> EventResult list \<Rightarrow> ('p, EventResult list) action" where
  "createAllEvents_loop ce PP n i [] results = resolve results"
| "createAllEvents_loop ce PP n i (slot # rest) results =
     andThen
       (console_log ([CHR 0x0A] @ ''Creating event '' @ stringOfNat (i + 1) @ ''/''
          @ stringOfNat n @ '': '' @ eventTypeText (type slot) @ '' at '' @ time slot))
       (await
          (tryCatch
             (await (ce slot)
                (\<lambda>result.
                   andThen
                     (if success result
                      then console_log (checkMark @ '' Event created successfully: ''
                             @ eventTypeText (type slot) @ '' at '' @ time slot)
                      else console_error (crossMark @ '' Failed to create event: ''
                             @ (case error result of Some m \<Rightarrow> m | None \<Rightarrow> ''undefined'')))
                     (andThen (sleep PP 2000) (resolve (results @ [result])))))
             (\<lambda>err.
                andThen
                  (console_error (crossMark @ '' Error creating event: '' @ errorMessage err))
                  (resolve (results @ [\<lparr>time = time slot, type = type slot, success = False,
                                         error = Some (errorMessage err)\<rparr>]))))
          (\<lambda>results'. createAllEvents_loop ce PP n (i + 1) rest results'))"

definition createAllEventsWith ::
  "(TimeSlot \<Rightarrow> ('p, EventResult) action) \<Rightarrow> 'p Puppeteer \<Rightarrow> TimeSlot list
     \<Rightarrow> ('p, EventResult list) action" where
  "createAllEventsWith ce PP slots' =
     andThen (console_log (''Creating '' @ stringOfNat (length slots') @ '' time events...''))
       (createAllEvents_loop ce PP (length slots') 0 slots' [])"

definition createAllEvents :: "'p Puppeteer \<Rightarrow> Selectors \<Rightarrow> TimeSlot list
     \<Rightarrow> ('p, EventResult list) action" where
  "createAllEvents PP sels slots' = createAllEventsWith (createEvent PP sels) PP slots'"


section \<open>Reaching the timesheet (navigation.ts, class TimesheetNavigator)\<close>

text \<open>
  The navigator keeps the base URL and the user identifier it was constructed with; its
  selectors are the constants the constructor sets.
\<close>

record TimesheetNavigator =
  baseUrl :: string
  userId :: string

definition navTimeTrackingIcon :: string where
  "navTimeTrackingIcon =
     ''#content > div > div.HomepageLayout_content__3KxJ8 > div:nth-child(1) > div > ''
       @ ''section > ul > li:nth-child(1) > ui5-busy-indicator > button''"

definition navViewTimesheetLink :: string where
  "navViewTimesheetLink =
     ''#clockTimeDialog > ui5-busy-indicator > div > ''
       @ ''div.ClockTimeDialog_recentActivityHeader__Rdjud > ui5-link''"

text \<open>
  \<^verbatim>\<open>
  private getCurrentDateString(): string {
    const today = new Date();
    const year = today.getFullYear();
    const month = String(today.getMonth() + 1).padStart(2, '0');
    const day = String(today.getDate()).padStart(2, '0');
    return `${year}-${month}-${day}`;
  }
  private getDirectTimesheetUrl(): string {
    const dateString = this.getCurrentDateString();
    return `https://hcm-eu30.hr.cloud.sap/sf/timesheet#/timerecords/${this.userId}/${dateString}`;
  }
  \<close>
  Both are given the date that \<open>new Date()\<close> yields.
\<close>

definition getCurrentDateString :: "LocalDate \<Rightarrow> string" where
  "getCurrentDateString today =
     (let year = getFullYear today;
          month = padStart 2 CHR ''0'' (stringOfNat (getMonth today + 1));
          day = padStart 2 CHR ''0'' (stringOfNat (getDate today))
      in stringOfNat year @ ''-'' @ month @ ''-'' @ day)"

definition getDirectTimesheetUrl :: "TimesheetNavigator \<Rightarrow> LocalDate \<Rightarrow> string" where
  "getDirectTimesheetUrl nav today =
     (let dateString = getCurrentDateString today
      in ''https://hcm-eu30.hr.cloud.sap/sf/timesheet#/timerecords/'' @ userId nav @ ''/''
           @ dateString)"

text \<open>Reading the clock leaves no trace.\<close>

definition newDate :: "'p Puppeteer \<Rightarrow> ('p, LocalDate) action" where
  "newDate PP s = (Inr (pp_today PP (fst s)), s)"

text \<open>The primary strategy, the body of the outer \<open>try\<close> of \<open>navigateToTimesheet\<close>.\<close>

definition uiNavigation :: "'p Puppeteer \<Rightarrow> ('p, unit) action" where
  "uiNavigation PP =
     steps [console_log ''Attempting UI navigation to timesheet...'',
            console_log ''Waiting for Time Tracking icon...'',
            waitForSelector PP navTimeTrackingIcon 15000,
            click PP navTimeTrackingIcon 1,
            console_log ''Clicked on Time Tracking icon'',
            sleep PP 2000,
            console_log ''Waiting for View Timesheet link...'',
            waitForSelector PP navViewTimesheetLink 10000,
            click PP navViewTimesheetLink 1,
            console_log ''Clicked on View Timesheet link'',
            sleep PP 3000,
            console_log (checkMark @ '' UI navigation successful'')]"

text \<open>
  The fallback, the body of the inner \<open>try\<close>: an empty user identifier is falsy and
  throws before any URL is built.
\<close>

definition urlNavigation :: "'p Puppeteer \<Rightarrow> TimesheetNavigator \<Rightarrow> ('p, unit) action" where
  "urlNavigation PP nav =
     (if userId nav = []
      then throw (Error ''User ID not configured for direct URL navigation'')
      else await (newDate PP)
             (\<lambda>today.
                let directUrl = getDirectTimesheetUrl nav today in
                steps [console_log (''Navigating directly to: '' @ directUrl),
                       goto PP directUrl 30000,
                       sleep PP 3000,
                       console_log (checkMark @ '' Direct URL navigation successful'')]))"

definition navigateToTimesheet :: "'p Puppeteer \<Rightarrow> TimesheetNavigator \<Rightarrow> ('p, unit) action" where
  "navigateToTimesheet PP nav =
     tryCatch (uiNavigation PP)
       (\<lambda>uiError.
          let errorMessage' = errorMessage uiError in
          andThen (console_warn (''UI navigation failed: '' @ errorMessage'))
            (andThen (console_log ''Attempting fallback: direct URL navigation...'')
               (tryCatch (urlNavigation PP nav)
                  (\<lambda>urlError.
                     let urlErrorMessage = errorMessage urlError in
                     throw (Error (''All navigation methods failed. UI: '' @ errorMessage'
                                     @ '', URL: '' @ urlErrorMessage))))))"

section \<open>Authentication (totp.ts and auth.ts, classes TOTPGenerator and Authenticator)\<close>

text \<open>
  \<open>TOTPGenerator.generate\<close>: the code of otplib for the secret, a failure thrown again
  under the generator's name.
\<close>

definition generate :: "'p Puppeteer \<Rightarrow> string \<Rightarrow> ('p, string) action" where
  "generate PP secret =
     tryCatch (call GenerateTotp (\<lambda>p. (pp_totp PP secret p, p)))
       (\<lambda>err. throw (Error (''Failed to generate TOTP code: '' @ castMessage err)))"

text \<open>
  \<open>isRequired\<close>: after a settle delay of 2 s the username field, the code field and the
  URL are probed in this order, the first hit answers \<open>true\<close>; whatever a probe throws
  is logged and answered by \<open>false\<close>.
\<close>

definition isRequired :: "'p Puppeteer \<Rightarrow> Selectors \<Rightarrow> ('p, bool) action" where
  "isRequired PP sels =
     tryCatch
       (andThen (sleep PP 2000)
          (await (query PP (usernameInput sels))
             (\<lambda>usernameInput'.
                if usernameInput' \<noteq> None
                then andThen (console_log ''Authentication required: username input found'')
                       (resolve True)
                else await (query PP (totpInput sels))
                  (\<lambda>totpInput'.
                     if totpInput' \<noteq> None
                     then andThen (console_log ''Authentication required: TOTP input found'')
                            (resolve True)
                     else await (pageUrl PP)
                       (\<lambda>currentUrl.
                          if includesStr currentUrl ''login'' \<or> includesStr currentUrl ''auth''
                               \<or> includesStr currentUrl ''keycloak''
                          then andThen (console_log ''Authentication required: on login page'')
                                 (resolve True)
                          else andThen
                                 (console_log ''Authentication not required - already logged in'')
                                 (resolve False))))))
       (\<lambda>err. andThen
                 (console_warn (''Error checking authentication requirement: '' @ castMessage err))
                 (resolve False))"

definition enterCredentials :: "'p Puppeteer \<Rightarrow> Credentials \<Rightarrow> Selectors \<Rightarrow> ('p, unit) action" where
  "enterCredentials PP creds sels =
     tryCatch
       (steps [console_log ''Entering username...'',
               waitForSelector PP (usernameInput sels) 10000,
               click PP (usernameInput sels) 3,
               typeText PP (usernameInput sels) (username creds),
               console_log ''Username entered'',
               console_log ''Entering password...'',
               waitForSelector PP (passwordInput sels) 10000,
               click PP (passwordInput sels) 3,
               typeText PP (passwordInput sels) (password creds),
               console_log ''Password entered''])
       (\<lambda>err. throw (Error (''Failed to enter credentials: '' @ castMessage err)))"

definition clickLoginButton :: "'p Puppeteer \<Rightarrow> Selectors \<Rightarrow> ('p, unit) action" where
  "clickLoginButton PP sels =
     tryCatch
       (steps [console_log ''Waiting for login button...'',
               waitForSelector PP (loginButton sels) 10000,
               console_log ''Clicking login button...'',
               click PP (loginButton sels) 1,
               sleep PP 1000])
       (\<lambda>err. throw (Error (''Failed to click login button: '' @ castMessage err)))"

definition enterTotpCode :: "'p Puppeteer \<Rightarrow> string \<Rightarrow> string \<Rightarrow> ('p, unit) action" where
  "enterTotpCode PP code selector =
     tryCatch
       (steps [console_log ''Entering TOTP code...'',
               console_log (''Using selector: '' @ selector),
               sleep PP 500,
               click PP selector 3,
               typeText PP selector code,
               console_log ''TOTP code entered successfully''])
       (\<lambda>err. throw (Error (''Failed to enter TOTP code: '' @ castMessage err)))"

definition submitTotpAuthentication :: "'p Puppeteer \<Rightarrow> ('p, unit) action" where
  "submitTotpAuthentication PP =
     tryCatch
       (steps [console_log ''Submitting TOTP authentication...'',
               keyboardPress PP ''Enter'',
               console_log ''TOTP authentication submitted''])
       (\<lambda>err. throw (Error (''Failed to submit TOTP authentication: '' @ castMessage err)))"

text \<open>
  \<open>waitForAuthenticationComplete\<close>: the navigation wait (20 s) raced against a timer of
  8 s is one answer of the world to \<open>waitForNavigation\<close>: it resolves when either settles
  first, and throws when the wait is rejected first. Whatever is thrown is swallowed.
\<close>

definition waitForAuthenticationComplete :: "'p Puppeteer \<Rightarrow> ('p, unit) action" where
  "waitForAuthenticationComplete PP =
     tryCatch
       (andThen (console_log ''Waiting for authentication to complete...'')
          (andThen (waitForNavigation PP 20000)
             (andThen (sleep PP 3000)
                (await (pageUrl PP)
                   (\<lambda>finalUrl.
                      andThen
                        (console_log (''Authentication process completed. Final URL: '' @ finalUrl))
                        (if includesStr finalUrl ''/companyEntry''
                         then console_warn (''Warning: Redirected to company entry page. ''
                                @ ''Company may not be properly set.'')
                         else resolve ()))))))
       (\<lambda>err. andThen (console_log ''Navigation wait completed (timeout or success)'')
                 (await (pageUrl PP)
                    (\<lambda>currentUrl. console_log (''Current URL: '' @ currentUrl))))"

text \<open>
  The first part of \<open>authenticate\<close>: when the username field is there, the credentials
  are entered and submitted. \<open>Promise.all\<close> runs the navigation wait (its failure
  swallowed) together with the click on the login button; here the click comes first and
  the wait settles after it, and a failed click ends the step without the wait.
\<close>

definition loginStep :: "'p Puppeteer \<Rightarrow> Credentials \<Rightarrow> Selectors \<Rightarrow> ('p, unit) action" where
  "loginStep PP creds sels =
     andThen (console_log ''Starting authentication process...'')
       (await (query PP (usernameInput sels))
          (\<lambda>usernameInput'.
             andThen
               (if usernameInput' \<noteq> None
                then steps [console_log ''Username/password login required'',
                            enterCredentials PP creds sels,
                            console_log ''Submitting credentials...'',
                            clickLoginButton PP sels,
                            tryCatch (waitForNavigation PP 15000) (\<lambda>err. resolve ()),
                            console_log ''Credentials submitted, waiting for next page...'',
                            sleep PP 5000]
                else console_log ''Username/password already filled or not required'')
               (steps [console_log ''Checking for TOTP field...'',
                       console_log (''Looking for selector: '' @ totpInput sels)])))"

text \<open>
  The polling loop, from attempt \<open>i\<close> on: the configured selector, then the two generic
  ones; the first element found ends the loop, otherwise the attempt is logged and the
  loop sleeps 1 s. After the tenth attempt the value is \<open>null\<close>.
\<close>

definition totpByName :: string where
  "totpByName = ''input[name='' @ dq @ ''totp'' @ dq @ '']''"

definition totpByType :: string where
  "totpByType = ''input[type='' @ dq @ ''text'' @ dq @ ''][autocomplete='' @ dq @ ''off'' @ dq @ '']''"

function pollTotp :: "'p Puppeteer \<Rightarrow> Selectors \<Rightarrow> nat \<Rightarrow> ('p, nat option) action" where
  "pollTotp PP sels i =
     (if i < 10
      then await (query PP (totpInput sels))
             (\<lambda>first.
                await (if first = None then query PP totpByName else resolve first)
                  (\<lambda>second.
                     await (if second = None then query PP totpByType else resolve second)
                       (\<lambda>totpInput'.
                          if totpInput' \<noteq> None
                          then andThen (console_log ''TOTP field found'') (resolve totpInput')
                          else andThen
                                 (console_log (''TOTP field not found yet, waiting... (attempt ''
                                    @ stringOfNat (i + 1) @ ''/10)''))
                                 (andThen (sleep PP 1000) (pollTotp PP sels (i + 1))))))
      else resolve None)"
  by pat_completeness auto
termination
  by (relation "measure (\<lambda>(PP, sels, i). 10 - i)") auto

declare pollTotp.simps [simp del]

text \<open>The branch taken when a code field was found.\<close>

definition totpFlow :: "'p Puppeteer \<Rightarrow> Credentials \<Rightarrow> Selectors \<Rightarrow> ('p, unit) action" where
  "totpFlow PP creds sels =
     andThen (console_log ''TOTP authentication required'')
       (await (generate PP (totpSecret creds))
          (\<lambda>totpCode.
             andThen (console_log (''TOTP code generated: '' @ totpCode))
               (await
                  (await (query PP (totpInput sels))
                     (\<lambda>configured.
                        if configured = None
                        then await (query PP totpByName)
                               (\<lambda>byName.
                                  if byName \<noteq> None then resolve totpByName
                                  else await (query PP totpByType)
                                         (\<lambda>byType.
                                            if byType \<noteq> None then resolve totpByType
                                            else resolve (totpInput sels)))
                        else resolve (totpInput sels)))
                  (\<lambda>workingSelector.
                     steps [enterTotpCode PP totpCode workingSelector,
                            submitTotpAuthentication PP,
                            waitForAuthenticationComplete PP]))))"

text \<open>The branch taken when no code field was found in ten attempts.\<close>

definition totpMissing :: "'p Puppeteer \<Rightarrow> ('p, unit) action" where
  "totpMissing PP =
     andThen (console_warn ''WARNING: TOTP field not found after 10 seconds'')
       (await (pageUrl PP)
          (\<lambda>url.
             andThen (console_log (''Current URL: '' @ url))
               (await (pageUrl PP)
                  (\<lambda>currentUrl.
                     if includesStr currentUrl ''/companyEntry''
                     then throw (Error (''Ended up on companyEntry page - ''
                                   @ ''TOTP was likely required but not completed''))
                     else resolve ()))))"

definition authenticate :: "'p Puppeteer \<Rightarrow> Credentials \<Rightarrow> Selectors \<Rightarrow> ('p, unit) action" where
  "authenticate PP creds sels =
     tryCatch
       (andThen (loginStep PP creds sels)
          (await (pollTotp PP sels 0)
             (\<lambda>totpInput'.
                andThen (if totpInput' \<noteq> None then totpFlow PP creds sels else totpMissing PP)
                  (console_log ''Authentication completed successfully''))))
       (\<lambda>err. throw (Error (''Authentication failed: '' @ castMessage err)))"

section \<open>The browser controller (browser.ts, class BrowserController)\<close>

text \<open>
  \<open>launch\<close> starts the browser and opens the page (one answer of the world,
  \<open>pp_launch\<close>); \<open>navigate\<close> goes to a URL with a timeout of 30 s; \<open>close\<close> closes
  the browser. Each throws its failures again under its own name. After \<open>launch\<close> the
  page and the browser exist, so the guards on their absence are not taken.
\<close>

definition launch :: "'p Puppeteer \<Rightarrow> BrowserConfig \<Rightarrow> ('p, unit) action" where
  "launch PP config =
     (if executablePath config = []
      then throw (Error ''Chrome executable path not configured. Set CHROME_PATH in .env file.'')
      else tryCatch
             (andThen (call Launch (pp_launch PP)) (console_log ''Browser launched successfully''))
             (\<lambda>err. throw (Error (''Failed to launch browser: '' @ errorMessage err))))"

definition navigate :: "'p Puppeteer \<Rightarrow> string \<Rightarrow> ('p, unit) action" where
  "navigate PP address =
     tryCatch
       (steps [console_log (''Navigating to: '' @ address),
               goto PP address 30000,
               console_log ''Navigation completed''])
       (\<lambda>err. throw (Error (''Failed to navigate to '' @ address @ '': '' @ errorMessage err)))"

definition close :: "'p Puppeteer \<Rightarrow> ('p, unit) action" where
  "close PP =
     tryCatch
       (andThen (call Close (pp_close PP)) (console_log ''Browser closed successfully''))
       (\<lambda>err. throw (Error (''Failed to close browser: '' @ errorMessage err)))"

section \<open>The run (index.ts, function main)\<close>

text \<open>
  The lines of the logger, without their time stamp and without the dump of the data that
  some of them carry.
\<close>

definition log_info :: "string \<Rightarrow> ('p, unit) action" where
  "log_info message = console_log (''[INFO] '' @ message)"

definition log_warn :: "string \<Rightarrow> ('p, unit) action" where
  "log_warn message = console_warn (''[WARN] '' @ message)"

definition log_error :: "string \<Rightarrow> ('p, unit) action" where
  "log_error message = console_error (''[ERROR] '' @ message)"

text \<open>\<open>new TOTPGenerator(secret)\<close> throws on an empty secret.\<close>

definition newTOTPGenerator :: "string \<Rightarrow> ('p, unit) action" where
  "newTOTPGenerator secret =
     (if secret = [] then throw (Error ''TOTP secret is required'') else resolve ())"

text \<open>
  After a successful authentication: when the URL is that of the company entry page, the
  start URL is opened once more, and a failure of that is only logged.
\<close>

definition correctMisrouting :: "'p Puppeteer \<Rightarrow> AppConfig \<Rightarrow> ('p, unit) action" where
  "correctMisrouting PP config =
     await (pageUrl PP)
       (\<lambda>currentUrl.
          if includesStr currentUrl ''/companyEntry''
          then andThen
                 (log_warn (''Detected companyEntry page, navigating to home with company ''
                    @ ''parameter...''))
                 (tryCatch
                    (steps [navigate PP (url config),
                            sleep PP 3000,
                            log_info ''Successfully navigated to home page with company''])
                    (\<lambda>err. log_warn ''Failed to navigate to home page, continuing anyway...''))
          else resolve ())"

text \<open>
  The part of \<open>main\<close> between the check for due entries and the creation of the events:
  the browser is launched, the start URL opened, the authentication run if required, and
  the timesheet reached.
\<close>

definition prepare :: "'p Puppeteer \<Rightarrow> AppConfig \<Rightarrow> ('p, unit) action" where
  "prepare PP config =
     andThen
       (steps [log_info ''Launching browser...'',
               launch PP (browser config),
               log_info ''Browser launched successfully'',
               log_info ''Navigating to SAP SuccessFactors...'',
               navigate PP (url config),
               log_info ''Navigation successful'',
               sleep PP 3000,
               log_info ''Checking if authentication is required...'',
               newTOTPGenerator (totpSecret (credentials config))])
       (await (isRequired PP (selectors config))
          (\<lambda>authRequired.
             andThen
               (if authRequired
                then steps [log_info ''Authentication required, starting authentication flow...'',
                            authenticate PP (credentials config) (selectors config),
                            log_info ''Authentication successful'',
                            correctMisrouting PP config]
                else log_info ''Authentication not required (already logged in)'')
               (steps [log_info ''Navigating to timesheet page...'',
                       navigateToTimesheet PP
                         \<lparr>baseUrl = url config, userId = AppConfig.userId config\<rparr>,
                       log_info ''Successfully navigated to timesheet page''])))"

text \<open>
  How the \<open>try\<close> block of \<open>main\<close> ends when it does not throw: by the early \<open>return\<close>
  for an empty list of due entries, by running to its end with the counts of all and of
  the successful events, or by \<open>process.exit(1)\<close> when no event was created.
\<close>

datatype tryEnd = NoEvents | Completed nat nat | ExitedWithFailure

text \<open>
  The \<open>try\<close> block, with the counting and the report of the results as a function of
  their own. The outcome of \<open>loadConfig()\<close> is a parameter, and so is the schedule
  manager, as the function from the loaded configuration to the value of
  \<open>getCurrentSchedule()\<close> at the time of the run.
\<close>

definition reportResults :: "EventResult list \<Rightarrow> ('p, tryEnd) action" where
  "reportResults eventResults =
     (let totalEvents = length eventResults;
          successfulEvents = length (filter success eventResults);
          failedEvents = filter (\<lambda>r. \<not> success r) eventResults
      in andThen
           (if length failedEvents > 0
            then log_warn (stringOfNat (length failedEvents) @ '' event(s) failed to create'')
            else resolve ())
           (andThen
              (log_info (''Successfully created '' @ stringOfNat successfulEvents @ ''/''
                 @ stringOfNat totalEvents @ '' time events''))
              (if successfulEvents > 0
               then andThen (log_info ''Time tracking automation completed successfully'')
                      (resolve (Completed totalEvents successfulEvents))
               else andThen
                      (log_error (''Time tracking automation completed with errors - ''
                         @ ''no events were created''))
                      (resolve ExitedWithFailure))))"

definition mainTry ::
  "'p Puppeteer \<Rightarrow> exn + AppConfig \<Rightarrow> (AppConfig \<Rightarrow> Schedule) \<Rightarrow> ('p, tryEnd) action" where
  "mainTry PP loadConfig getCurrentSchedule =
     andThen (log_info ''Starting Time Tracking Automation'')
       (andThen (log_info ''Loading configuration...'')
          (await (\<lambda>s. (loadConfig, s))
             (\<lambda>config.
                let schedule = getCurrentSchedule config in
                andThen
                  (steps [log_info ''Configuration loaded successfully'',
                          log_info ''Determining schedule for today...'',
                          log_info (''Schedule determined: '' @ dayTypeText (dayType schedule))])
                  (if length (availableSlots schedule) = 0
                   then andThen (log_warn ''No time events available to create at this time'')
                          (andThen (log_info ''All scheduled events are in the future'')
                             (resolve NoEvents))
                   else andThen (prepare PP config)
                          (andThen
                             (log_info (''Creating ''
                                @ stringOfNat (length (availableSlots schedule))
                                @ '' time events...''))
                             (await
                                (createAllEvents PP (selectors config) (availableSlots schedule))
                                reportResults))))))"

text \<open>
  The \<open>finally\<close> block, reached only when the process has not exited: the browser is
  closed when it was launched, a failure of that is logged, and the summary is printed
  when there were events.
\<close>

definition mainFinally :: "'p Puppeteer \<Rightarrow> bool \<Rightarrow> nat \<Rightarrow> nat \<Rightarrow> ('p, unit) action" where
  "mainFinally PP launched totalEvents successfulEvents =
     andThen
       (if launched
        then tryCatch
               (steps [log_info ''Closing browser...'',
                       close PP,
                       log_info ''Browser closed successfully''])
               (\<lambda>err. log_error ''Error closing browser'')
        else resolve ())
       (if totalEvents > 0
        then steps [console_log ([CHR 0x0A] @ replicate 50 CHR ''=''),
                    console_log ''EXECUTION SUMMARY'',
                    console_log (replicate 50 CHR ''=''),
                    console_log (''Total events: '' @ stringOfNat totalEvents),
                    console_log (''Successful: '' @ stringOfNat successfulEvents),
                    console_log (''Failed: '' @ stringOfNat (totalEvents - successfulEvents)),
                    console_log (replicate 50 CHR ''='' @ [CHR 0x0A])]
        else resolve ())"

text \<open>
  \<open>main\<close>, as the exit code of the process and the final state. \<open>process.exit(1)\<close>
  ends the process at once, in the \<open>try\<close> block or in the \<open>catch\<close>, and the
  \<open>finally\<close> block is not run then; otherwise the process ends with code 0 after it.
\<close>

definition main ::
  "'p Puppeteer \<Rightarrow> exn + AppConfig \<Rightarrow> (AppConfig \<Rightarrow> Schedule) \<Rightarrow> 'p state \<Rightarrow> nat \<times> 'p state" where
  "main PP loadConfig getCurrentSchedule s =
     (case mainTry PP loadConfig getCurrentSchedule s of
        (Inl err, s') \<Rightarrow> (1, snd (log_error ''Fatal error during execution'' s'))
      | (Inr ExitedWithFailure, s') \<Rightarrow> (1, s')
      | (Inr NoEvents, s') \<Rightarrow> (0, snd (mainFinally PP False 0 0 s'))
      | (Inr (Completed totalEvents successfulEvents), s') \<Rightarrow>
          (0, snd (mainFinally PP True totalEvents successfulEvents s')))"

section \<open>Vocabulary for the properties\<close>

text \<open>A state after some console lines were printed.\<close>

definition logged :: "string list \<Rightarrow> 'p state \<Rightarrow> 'p state" where
  "logged msgs s = (fst s, snd s @ map ConsoleLog msgs)"

text \<open>The stages of \<open>createEvent\<close> that come before the type selection.\<close>

definition beforeTypeSelection :: "'p Puppeteer \<Rightarrow> Selectors \<Rightarrow> TimeSlot \<Rightarrow> ('p, unit) action" where
  "beforeTypeSelection PP sels slot =
     steps [clickTimeEventsButton PP sels,
            clickCreateButton PP sels,
            fillTime PP sels (time slot) (type slot)]"

text \<open>
  The marks a strategy of the type selection leaves in the trace. Each strategy is
  announced by its own console line; only strategy 1 presses a key, only strategy 2 looks
  up and clicks element handles, only strategy 3 evaluates a function in the page.
\<close>

fun strategyOf :: "event \<Rightarrow> nat option" where
  "strategyOf (ConsoleLog m) =
     (if m = ''  - Strategy 1: Typing directly in input field'' then Some 1
      else if m = ''  - Strategy 2: Trying click-based selection'' then Some 2
      else if m = ''  - Strategy 3: Searching by text content'' then Some 3
      else None)"
| "strategyOf (KeyPress k) = Some 1"
| "strategyOf (Query selector) = Some 2"
| "strategyOf (ElementClick h) = Some 2"
| "strategyOf (Evaluate arg) = Some 3"
| "strategyOf ev = None"

definition strategyAttempts :: "event list \<Rightarrow> nat list" where
  "strategyAttempts tr = List.map_filter strategyOf tr"

text \<open>
  Reading a trace from strategy \<open>a\<close> on: a mark of the current strategy or of the next
  one is accepted, any other mark is refused. The value is the strategy reached.
\<close>

fun reached :: "nat \<Rightarrow> event list \<Rightarrow> nat option" where
  "reached a [] = Some a"
| "reached a (ev # tr) =
     (case strategyOf ev of
        None \<Rightarrow> reached a tr
      | Some n \<Rightarrow> if n = a \<or> n = Suc a then reached n tr else None)"

text \<open>
  An action keeps the order of the strategies when, started at strategy \<open>a\<close>, it only
  adds to the trace, what it adds is accepted, and the result and the strategy reached
  satisfy \<open>Q\<close>.
\<close>

definition keepsOrder ::
  "('p, 'a) action \<Rightarrow> nat \<Rightarrow> (exn + 'a \<Rightarrow> nat \<Rightarrow> bool) \<Rightarrow> bool" where
  "keepsOrder m a Q =
     (\<forall>s. \<exists>tr b. snd (snd (m s)) = snd s @ tr \<and> reached a tr = Some b \<and> Q (fst (m s)) b)"


text \<open>
  The date format \<open>YYYY-MM-DD\<close> as the specification words it: four digits of the year,
  two of the month (counted from 1) and two of the day.
\<close>

definition spec_isoDate :: "nat \<Rightarrow> nat \<Rightarrow> nat \<Rightarrow> string" where
  "spec_isoDate y m d =
     [digitChar (y div 1000), digitChar (y div 100 mod 10), digitChar (y div 10 mod 10),
      digitChar (y mod 10)] @ ''-'' @ [digitChar (m div 10), digitChar (m mod 10)] @ ''-''
       @ [digitChar (d div 10), digitChar (d mod 10)]"

text \<open>The lookups of element handles in a trace.\<close>

definition isQuery :: "event \<Rightarrow> bool" where
  "isQuery ev = (case ev of Query selector \<Rightarrow> True | _ \<Rightarrow> False)"

text \<open>
  The run of \<open>main\<close> with a loaded configuration and entries due, up to the value of
  \<open>createAllEvents\<close>; and the entry results of a run: that value, or none when the run
  has failed before.
\<close>

definition runToEvents ::
  "'p Puppeteer \<Rightarrow> AppConfig \<Rightarrow> Schedule \<Rightarrow> ('p, EventResult list) action" where
  "runToEvents PP config schedule =
     andThen
       (steps [log_info ''Starting Time Tracking Automation'',
               log_info ''Loading configuration...'',
               log_info ''Configuration loaded successfully'',
               log_info ''Determining schedule for today...'',
               log_info (''Schedule determined: '' @ dayTypeText (dayType schedule)),
               prepare PP config,
               log_info (''Creating '' @ stringOfNat (length (availableSlots schedule))
                  @ '' time events...'')])
       (createAllEvents PP (selectors config) (availableSlots schedule))"

definition entryResults ::
  "'p Puppeteer \<Rightarrow> AppConfig \<Rightarrow> Schedule \<Rightarrow> 'p state \<Rightarrow> EventResult list" where
  "entryResults PP config schedule s =
     (case fst (runToEvents PP config schedule s) of Inl err \<Rightarrow> [] | Inr results \<Rightarrow> results)"

section \<open>Simulated pages\<close>

text \<open>
  A page to run the program on: the world is the current URL; waiting fails for the
  selectors of \<open>noWait\<close>, clicking for those of \<open>noClick\<close>; \<open>handles\<close> are the
  elements \<open>page.$\<close> finds, \<open>texts\<close> the list items of the document with their text.
\<close>

definition simPage ::
  "string list \<Rightarrow> string list \<Rightarrow> (string \<times> nat) list \<Rightarrow> (nat \<times> string) list \<Rightarrow> string Puppeteer" where
  "simPage noWait noClick handles texts =
     \<lparr>pp_launch = (\<lambda>p. (Inr (), p)),
      pp_close = (\<lambda>p. (Inr (), p)),
      pp_waitForSelector = (\<lambda>selector timeout p.
         if selector \<in> set noWait then (Inl (Error ''waiting for selector failed''), p)
         else (Inr (), p)),
      pp_click = (\<lambda>selector n p.
         if selector \<in> set noClick then (Inl (Error ''no node found for selector''), p)
         else (Inr (), p)),
      pp_type = (\<lambda>selector text p. (Inr (), p)),
      pp_press = (\<lambda>key p. (Inr (), p)),
      pp_query = (\<lambda>selector p. (Inr (map_of handles selector), p)),
      pp_elementClick = (\<lambda>h p. (Inr (), p)),
      pp_goto = (\<lambda>url timeout p. (Inr (), url)),
      pp_waitForNavigation = (\<lambda>timeout p. (Inr (), p)),
      pp_url = (\<lambda>p. p),
      pp_settle = (\<lambda>ms p. p),
      pp_evaluateError = (\<lambda>p. None),
      pp_querySelectorAll = (\<lambda>selector p. if selector = ''li'' then map fst texts else []),
      pp_textContent = (\<lambda>h p. map_of texts h),
      pp_domClick = (\<lambda>h p. p),
      pp_totp = (\<lambda>secret p. Inr ''123456''),
      pp_today = (\<lambda>p. \<lparr>getFullYear = 2026, getMonth = 10, getDate = 2\<rparr>)\<rparr>"

definition simSelectors :: Selectors where
  "simSelectors =
     \<lparr>usernameInput = ''#user'', passwordInput = ''#pass'', loginButton = ''#login'',
      totpInput = ''#totp'', timeTrackingIcon = ''#icon'', viewTimesheetLink = ''#link'',
      dateSelector = ''#date'', timeEventsButton = ''#events'', createButton = ''#create'',
      timeInput = ''#time'', typeDropdown = ''#type'', submitButton = ''#submit''\<rparr>"


text \<open>A page without the time tracking icon, on a network that refuses every navigation.\<close>

definition offlinePage :: "string Puppeteer" where
  "offlinePage =
     (simPage [navTimeTrackingIcon] [] [] [])
       \<lparr>pp_goto := (\<lambda>url timeout p. (Inl (Error ''net::ERR_CONNECTION_REFUSED''), p))\<rparr>"

text \<open>A page on which every lookup of an element throws, and credentials to log in with.\<close>

definition brokenPage :: "string Puppeteer" where
  "brokenPage =
     (simPage [] [] [] [])
       \<lparr>pp_query := (\<lambda>selector p. (Inl (Error ''Execution context was destroyed''), p))\<rparr>"

definition simCredentials :: Credentials where
  "simCredentials = \<lparr>username = ''user@example.org'', password = ''secret'',
                      totpSecret = ''JBSWY3DPEHPK3PXP''\<rparr>"

text \<open>
  A configuration with the schedule of the README, and the schedule manager at a time of
  day when the first \<open>due\<close> entries of the regular schedule are due.
\<close>

definition regularSlots :: "TimeSlot list" where
  "regularSlots =
     [\<lparr>time = ''08:00'', type = Entrada\<rparr>, \<lparr>time = ''14:00'', type = Salida\<rparr>,
      \<lparr>time = ''14:45'', type = Entrada\<rparr>, \<lparr>time = ''17:30'', type = Salida\<rparr>]"

definition simConfig :: AppConfig where
  "simConfig =
     \<lparr>url = ''https://example.org/sf/home?company=x'', userId = ''u1'',
      credentials = simCredentials,
      browser = \<lparr>headless = True, executablePath = ''/usr/bin/google-chrome'',
                  defaultTimeout = 30000\<rparr>,
      selectors = simSelectors,
      schedules = \<lparr>friday = take 2 regularSlots, regular = regularSlots\<rparr>,
      retry = None\<rparr>"

definition scheduleAt :: "nat \<Rightarrow> AppConfig \<Rightarrow> Schedule" where
  "scheduleAt due config =
     \<lparr>dayType = Regular, slots = regular (schedules config),
      availableSlots = take due (regular (schedules config))\<rparr>"

section \<open>Properties of the time entry format\<close>

lemma stripLeadingZeros_no_leading_zero:
  "stripLeadingZeros s = [] \<or> hd (stripLeadingZeros s) \<noteq> CHR ''0''"
  unfolding stripLeadingZeros_def using hd_dropWhile [of "\<lambda>c. c = CHR ''0''" s] by blast

text \<open>
  Claim C2. For a time string \<open>HH:MM\<close> (two digits, a colon, two digits) the compact
  form is the four digits with the colon removed and the leading zeros of the whole digit
  string stripped, and \<open>0\<close> when nothing is left; it is never empty and starts with a
  zero only when it is \<open>0\<close>. In particular \<open>08:00\<close> gives \<open>800\<close>, \<open>14:45\<close> gives
  \<open>1445\<close>, \<open>00:05\<close> gives \<open>5\<close> and \<open>00:00\<close> gives \<open>0\<close>.
\<close>

theorem formatTimeForInput_HHMM:
  assumes "isDigit h1" and "isDigit h2" and "isDigit m1" and "isDigit m2"
  shows "formatTimeForInput [h1, h2, CHR '':'', m1, m2] =
           (if stripLeadingZeros [h1, h2, m1, m2] = [] then ''0''
            else stripLeadingZeros [h1, h2, m1, m2])
         \<and> formatTimeForInput [h1, h2, CHR '':'', m1, m2] \<noteq> []
         \<and> (hd (formatTimeForInput [h1, h2, CHR '':'', m1, m2]) = CHR ''0''
              \<longrightarrow> formatTimeForInput [h1, h2, CHR '':'', m1, m2] = ''0'')
         \<and> formatTimeForInput ''08:00'' = ''800''
         \<and> formatTimeForInput ''14:45'' = ''1445''
         \<and> formatTimeForInput ''00:05'' = ''5''
         \<and> formatTimeForInput ''00:00'' = ''0''"
proof -
  have colon: "h1 \<noteq> CHR '':''" "h2 \<noteq> CHR '':''"
    using assms by (auto simp: isDigit_def)
  have rm: "removeFirst CHR '':'' [h1, h2, CHR '':'', m1, m2] = [h1, h2, m1, m2]"
    using colon by simp
  have eq: "formatTimeForInput [h1, h2, CHR '':'', m1, m2] =
      (if stripLeadingZeros [h1, h2, m1, m2] = [] then ''0''
       else stripLeadingZeros [h1, h2, m1, m2])"
    unfolding formatTimeForInput_def rm by (simp add: Let_def)
  have ne: "formatTimeForInput [h1, h2, CHR '':'', m1, m2] \<noteq> []"
    unfolding eq by simp
  have lead: "hd (formatTimeForInput [h1, h2, CHR '':'', m1, m2]) = CHR ''0''
      \<longrightarrow> formatTimeForInput [h1, h2, CHR '':'', m1, m2] = ''0''"
    unfolding eq using stripLeadingZeros_no_leading_zero [of "[h1, h2, m1, m2]"] by auto
  have ex: "formatTimeForInput ''08:00'' = ''800''" "formatTimeForInput ''14:45'' = ''1445''"
    "formatTimeForInput ''00:05'' = ''5''" "formatTimeForInput ''00:00'' = ''0''"
    by (simp_all add: formatTimeForInput_def stripLeadingZeros_def)
  from eq ne lead ex show ?thesis by blast
qed

theorem formatTimeForInput_HHMM_witness:
  "isDigit CHR ''0'' \<and> isDigit CHR ''9'' \<and> isDigit CHR ''3''
   \<and> formatTimeForInput ''09:30'' = ''930''"
proof -
  have d: "isDigit CHR ''0''" "isDigit CHR ''9''" "isDigit CHR ''3''"
    by (simp_all add: isDigit_def)
  have "stripLeadingZeros ''0930'' = ''930''"
    by (simp add: stripLeadingZeros_def)
  with formatTimeForInput_HHMM [OF d(1) d(2) d(3) d(1)] d show ?thesis by simp
qed

section \<open>Running the primitive actions\<close>




text \<open>The definitions to unfold when a program is run on a concrete page.\<close>

lemmas run_defs = tryCatch_def andThen_def await_def waitForSelector_def click_def sleep_def
  typeText_def keyboardPress_def query_def elementClick_def goto_def evaluate_def
  call_def throw_def resolve_def console_log_def console_warn_def console_error_def emit_def
  checkMark_def crossMark_def dq_def

lemmas sim_defs = simPage_def simSelectors_def

lemmas eval_defs = sim_defs createEvent_def beforeTypeSelection_def clickTimeEventsButton_def
  clickCreateButton_def fillTimeAndType_def selectType_def typeDirectly_def
  clickBasedSelection_def tryClickSelection_def selectorsToTry_def searchOptions_def
  searchByText_def optionSelectors_def submitEvent_def fillTime_def formatTimeForInput_def
  stripLeadingZeros_def logged_def Let_def run_defs

section \<open>Failure isolation in createAllEvents\<close>







section \<open>The order of the selection strategies\<close>






lemma keepsOrder_call:
  assumes "reached a [ev] = Some b" and "\<And>r. Q r b"
  shows "keepsOrder (call ev f) a Q"
  using assms by (auto simp: keepsOrder_def call_def split: prod.splits)























lemma startsWith_self: "startsWith s s"
  by (induction s) auto

lemma startsWith_append: "startsWith (s @ t) s"
  by (induction s) simp_all

lemma includesStr_suffix: "includesStr (xs @ ys) ys"
proof (induction xs)
  case Nil
  show ?case by (cases ys) (auto simp: startsWith_self)
next
  case (Cons x xs)
  then show ?case by simp
qed

lemma includesStr_middle: "includesStr (xs @ ys @ zs) ys"
proof (induction xs)
  case Nil
  show ?case
  proof (cases "ys @ zs")
    case Nil
    then show ?thesis by simp
  next
    case (Cons c cs)
    then show ?thesis using startsWith_append [of ys zs] by simp
  qed
next
  case (Cons x xs)
  then show ?case by simp
qed




lemma createEvent_selectType_fails:
  assumes "beforeTypeSelection PP sels slot s = (Inr (), s1)"
    and "selectType PP sels (type slot) s1 = (Inl e, s2)"
  shows "createEvent PP sels slot s =
      (Inr \<lparr>time = time slot, type = type slot, success = False,
            error = Some (''Failed to fill time and type: '' @ errorMessage e)\<rparr>, s2)"
  using assms
  by (auto simp: beforeTypeSelection_def createEvent_def fillTimeAndType_def
      tryCatch_def andThen_def await_def resolve_def throw_def split: prod.splits sum.splits)


lemma selectType_after_direct_failure:
  assumes "typeDirectly PP sels ty s1 = (Inl eA, s2)"
  shows "selectType PP sels ty s1 =
     tryCatch (clickBasedSelection PP sels ty)
       (\<lambda>clickError. throw (Error (''Failed to select type after trying all strategies: ''
                                     @ errorMessage clickError)))
       (logged [''  - Strategy 1 failed: '' @ errorMessage eA,
                ''  - Strategy 2: Trying click-based selection''] s2)"
  using assms
  by (simp add: selectType_def tryCatch_def andThen_def await_def console_log_def emit_def logged_def)



lemma selectType_click_throws:
  assumes "typeDirectly PP sels ty s1 = (Inl eA, s2)"
    and "pp_click PP (typeDropdown sels) 1 (fst s2) = (Inl eB, p3)"
  shows "selectType PP sels ty s1 =
     (Inl (Error (''Failed to select type after trying all strategies: '' @ errorMessage eB)),
      (p3, snd s2 @ [ConsoleLog (''  - Strategy 1 failed: '' @ errorMessage eA),
                     ConsoleLog ''  - Strategy 2: Trying click-based selection'',
                     Click (typeDropdown sels) 1]))"
  unfolding selectType_after_direct_failure [OF assms(1)]
  using assms(2)
  by (simp add: tryCatch_def clickBasedSelection_def tryClickSelection_def await_def andThen_def
      click_def call_def throw_def logged_def)



text \<open>
  Claim C10. When the stages before the type selection succeed, strategy 1 throws and the
  click that opens the dropdown at the start of strategy 2 throws, \<open>createEvent\<close>
  resolves with a failed result whose message wraps that of the click, and nothing is
  done after the click: the trace ends with it, and strategy 3 leaves no mark.
\<close>

theorem createEvent_dropdown_click_throws:
  assumes "beforeTypeSelection PP sels slot s = (Inr (), s1)"
    and "typeDirectly PP sels (type slot) s1 = (Inl eA, s2)"
    and "pp_click PP (typeDropdown sels) 1 (fst s2) = (Inl eB, p3)"
  shows "createEvent PP sels slot s =
      (Inr \<lparr>time = time slot, type = type slot, success = False,
            error = Some (''Failed to fill time and type: ''
                     @ ''Failed to select type after trying all strategies: '' @ errorMessage eB)\<rparr>,
       (p3, snd s2 @ [ConsoleLog (''  - Strategy 1 failed: '' @ errorMessage eA),
                      ConsoleLog ''  - Strategy 2: Trying click-based selection'',
                      Click (typeDropdown sels) 1]))
    \<and> 3 \<notin> set (strategyAttempts (drop (length (snd s2)) (snd (snd (createEvent PP sels slot s)))))"
proof -
  have 1: "createEvent PP sels slot s =
      (Inr \<lparr>time = time slot, type = type slot, success = False,
            error = Some (''Failed to fill time and type: ''
                     @ ''Failed to select type after trying all strategies: '' @ errorMessage eB)\<rparr>,
       (p3, snd s2 @ [ConsoleLog (''  - Strategy 1 failed: '' @ errorMessage eA),
                      ConsoleLog ''  - Strategy 2: Trying click-based selection'',
                      Click (typeDropdown sels) 1]))"
    using createEvent_selectType_fails [OF assms(1) selectType_click_throws [OF assms(2,3)]]
    by simp
  have "strategyAttempts [ConsoleLog (''  - Strategy 1 failed: '' @ errorMessage eA),
                      ConsoleLog ''  - Strategy 2: Trying click-based selection'',
                      Click (typeDropdown sels) 1] = [2]"
    by (simp add: strategyAttempts_def)
  with 1 show ?thesis by simp
qed



theorem createEvent_dropdown_click_throws_witness:
  "fst (beforeTypeSelection (simPage [''#type''] [''#type''] [] []) simSelectors
          \<lparr>time = ''17:30'', type = Salida\<rparr> (''home'', [])) = Inr ()
   \<and> fst (createEvent (simPage [''#type''] [''#type''] [] []) simSelectors
          \<lparr>time = ''17:30'', type = Salida\<rparr> (''home'', [])) =
       Inr \<lparr>time = ''17:30'', type = Salida, success = False,
            error = Some (''Failed to fill time and type: ''
              @ ''Failed to select type after trying all strategies: ''
              @ ''no node found for selector'')\<rparr>
   \<and> Evaluate ''Salida'' \<notin> set (snd (snd (createEvent (simPage [''#type''] [''#type''] [] [])
          simSelectors \<lparr>time = ''17:30'', type = Salida\<rparr> (''home'', []))))"
proof -
  let ?S = simSelectors
  let ?s = "(''home'', []) :: string state"
  let ?slot = "\<lparr>time = ''17:30'', type = Salida\<rparr>"
  let ?P = "simPage [''#type''] [''#type''] [] []"
  let ?sa = "snd (beforeTypeSelection ?P ?S ?slot ?s)"
  let ?sb = "snd (typeDirectly ?P ?S Salida ?sa)"
  have 1: "beforeTypeSelection ?P ?S ?slot ?s = (Inr (), ?sa)"
    by (simp add: eval_defs)
  have 2: "typeDirectly ?P ?S (type ?slot) ?sa = (Inl (Error ''waiting for selector failed''), ?sb)"
    by (simp add: eval_defs)
  have 3: "pp_click ?P (typeDropdown ?S) 1 (fst ?sb) = (Inl (Error ''no node found for selector''), ''home'')"
    by (simp add: eval_defs)
  have 4: "Evaluate ''Salida'' \<notin> set (snd ?sb)"
    by (simp add: eval_defs)
  have 5: "fst (beforeTypeSelection ?P ?S ?slot ?s) = Inr ()"
    by (simp add: eval_defs)
  from createEvent_dropdown_click_throws [OF 1 2 3]
  have 6: "createEvent ?P ?S ?slot ?s =
      (Inr \<lparr>time = ''17:30'', type = Salida, success = False,
            error = Some (''Failed to fill time and type: ''
              @ ''Failed to select type after trying all strategies: ''
              @ ''no node found for selector'')\<rparr>,
       (''home'', snd ?sb @ [ConsoleLog (''  - Strategy 1 failed: '' @ ''waiting for selector failed''),
                      ConsoleLog ''  - Strategy 2: Trying click-based selection'',
                      Click (typeDropdown ?S) 1]))"
    by simp
  have 7: "Evaluate ''Salida'' \<notin> set (snd (snd (createEvent ?P ?S ?slot ?s)))"
    unfolding 6 using 4 by simp
  from 5 6 7 show ?thesis by simp
qed

section \<open>The fallback URL\<close>

lemma stringOfNat_1: "n < 10 \<Longrightarrow> stringOfNat n = [digitChar n]"
  by (simp add: stringOfNat.simps)

lemma stringOfNat_2:
  assumes "10 \<le> n" and "n < 100"
  shows "stringOfNat n = [digitChar (n div 10), digitChar (n mod 10)]"
proof -
  have "n div 10 < 10" using assms by simp
  then show ?thesis using assms by (subst stringOfNat.simps) (simp add: stringOfNat_1)
qed

lemma stringOfNat_3:
  assumes "100 \<le> n" and "n < 1000"
  shows "stringOfNat n = [digitChar (n div 100), digitChar (n div 10 mod 10), digitChar (n mod 10)]"
proof -
  have "10 \<le> n div 10" "n div 10 < 100" using assms by simp_all
  then have "stringOfNat (n div 10) = [digitChar (n div 10 div 10), digitChar (n div 10 mod 10)]"
    by (rule stringOfNat_2)
  moreover have "n div 10 div 10 = n div 100" by (simp add: div_mult2_eq [symmetric])
  ultimately show ?thesis using assms by (subst stringOfNat.simps) simp
qed

lemma stringOfNat_4:
  assumes "1000 \<le> n" and "n < 10000"
  shows "stringOfNat n = [digitChar (n div 1000), digitChar (n div 100 mod 10),
                          digitChar (n div 10 mod 10), digitChar (n mod 10)]"
proof -
  have "100 \<le> n div 10" "n div 10 < 1000" using assms by simp_all
  then have "stringOfNat (n div 10) = [digitChar (n div 10 div 100),
      digitChar (n div 10 div 10 mod 10), digitChar (n div 10 mod 10)]"
    by (rule stringOfNat_3)
  moreover have "n div 10 div 100 = n div 1000" "n div 10 div 10 = n div 100"
    by (simp_all add: div_mult2_eq [symmetric])
  ultimately show ?thesis using assms by (subst stringOfNat.simps) simp
qed

lemma pad2:
  assumes "n < 100"
  shows "padStart 2 CHR ''0'' (stringOfNat n) = [digitChar (n div 10), digitChar (n mod 10)]"
proof (cases "n < 10")
  case True
  then show ?thesis by (simp add: stringOfNat_1 padStart_def digitChar_def)
next
  case False
  then show ?thesis using assms by (simp add: stringOfNat_2 padStart_def)
qed

lemma getCurrentDateString_iso:
  assumes "1000 \<le> getFullYear today" and "getFullYear today \<le> 9999"
    and "getMonth today < 12" and "getDate today \<le> 31"
  shows "getCurrentDateString today =
           spec_isoDate (getFullYear today) (getMonth today + 1) (getDate today)"
proof -
  have y: "stringOfNat (getFullYear today) =
      [digitChar (getFullYear today div 1000), digitChar (getFullYear today div 100 mod 10),
       digitChar (getFullYear today div 10 mod 10), digitChar (getFullYear today mod 10)]"
    using assms(1,2) by (intro stringOfNat_4) simp_all
  have m: "padStart 2 CHR ''0'' (stringOfNat (getMonth today + 1)) =
      [digitChar ((getMonth today + 1) div 10), digitChar ((getMonth today + 1) mod 10)]"
    using assms(3) by (intro pad2) simp
  have d: "padStart 2 CHR ''0'' (stringOfNat (getDate today)) =
      [digitChar (getDate today div 10), digitChar (getDate today mod 10)]"
    using assms(4) by (intro pad2) simp
  show ?thesis
    unfolding getCurrentDateString_def Let_def y m d spec_isoDate_def by simp
qed

text \<open>
  Claim C5, as amended. For a date with a four-digit year the fallback URL is the fixed host
  \<open>https://hcm-eu30.hr.cloud.sap\<close>, then \<open>/sf/timesheet#/timerecords/\<close>, the user
  identifier, a slash and the date as \<open>YYYY-MM-DD\<close>; the base URL the navigator was
  constructed with has no part in it.
\<close>

theorem getDirectTimesheetUrl_fixed_host:
  assumes "1000 \<le> getFullYear today" and "getFullYear today \<le> 9999"
    and "getMonth today < 12" and "getDate today \<le> 31"
  shows "getDirectTimesheetUrl nav today =
           ''https://hcm-eu30.hr.cloud.sap'' @ ''/sf/timesheet#/timerecords/'' @ userId nav @ ''/''
             @ spec_isoDate (getFullYear today) (getMonth today + 1) (getDate today)
         \<and> getDirectTimesheetUrl (nav\<lparr>baseUrl := b\<rparr>) today = getDirectTimesheetUrl nav today"
  using getCurrentDateString_iso [OF assms]
  by (simp add: getDirectTimesheetUrl_def Let_def)

theorem getDirectTimesheetUrl_fixed_host_witness:
  "getDirectTimesheetUrl \<lparr>baseUrl = ''https://example.org/sf/home'', userId = ''u1''\<rparr>
     \<lparr>getFullYear = 2026, getMonth = 10, getDate = 2\<rparr> =
     ''https://hcm-eu30.hr.cloud.sap/sf/timesheet#/timerecords/u1/2026-11-02''"
  using getDirectTimesheetUrl_fixed_host [of "\<lparr>getFullYear = 2026, getMonth = 10, getDate = 2\<rparr>"
      "\<lparr>baseUrl = ''https://example.org/sf/home'', userId = ''u1''\<rparr>"]
  by (simp add: spec_isoDate_def digitChar_def)

text \<open>
  Claim C5 as stated fails: with the base URL \<open>https://example.org\<close> the fallback URL
  does not start with that host, and another base URL gives the same fallback URL.
\<close>

theorem getDirectTimesheetUrl_ignores_baseUrl:
  "getDirectTimesheetUrl \<lparr>baseUrl = ''https://example.org'', userId = ''u1''\<rparr>
     \<lparr>getFullYear = 2026, getMonth = 10, getDate = 2\<rparr>
     \<noteq> ''https://example.org'' @ ''/sf/timesheet#/timerecords/'' @ ''u1'' @ ''/'' @ ''2026-11-02''
   \<and> getDirectTimesheetUrl \<lparr>baseUrl = ''https://example.org'', userId = ''u1''\<rparr>
         \<lparr>getFullYear = 2026, getMonth = 10, getDate = 2\<rparr>
       = getDirectTimesheetUrl \<lparr>baseUrl = ''https://other.example.net'', userId = ''u1''\<rparr>
         \<lparr>getFullYear = 2026, getMonth = 10, getDate = 2\<rparr>"
  by (simp add: getDirectTimesheetUrl_def)

section \<open>The navigation fallback\<close>

lemma urlNavigation_goto:
  assumes "userId nav \<noteq> []"
  shows "\<exists>tr. snd (snd (urlNavigation PP nav s)) =
           snd s @ ConsoleLog (''Navigating directly to: ''
                      @ getDirectTimesheetUrl nav (pp_today PP (fst s)))
                 # Goto (getDirectTimesheetUrl nav (pp_today PP (fst s))) 30000 # tr"
  using assms
  by (auto simp: urlNavigation_def newDate_def Let_def run_defs split: prod.splits sum.splits)

lemma urlNavigation_extends: "\<exists>tr. snd (snd (urlNavigation PP nav s)) = snd s @ tr"
proof (cases "userId nav = []")
  case True
  then show ?thesis by (simp add: urlNavigation_def throw_def)
next
  case False
  from urlNavigation_goto [OF this, of PP s] show ?thesis by blast
qed

lemma navigateToTimesheet_after_ui_failure:
  assumes "uiNavigation PP s = (Inl uiError, s1)"
  shows "navigateToTimesheet PP nav s =
     tryCatch (urlNavigation PP nav)
       (\<lambda>urlError. throw (Error (''All navigation methods failed. UI: '' @ errorMessage uiError
                                   @ '', URL: '' @ errorMessage urlError)))
       (fst s1, snd s1 @ [ConsoleWarn (''UI navigation failed: '' @ errorMessage uiError),
                          ConsoleLog ''Attempting fallback: direct URL navigation...''])"
  using assms
  by (simp add: navigateToTimesheet_def tryCatch_def andThen_def await_def Let_def
      console_warn_def console_log_def emit_def)

lemma tryCatch_throw_state:
  "snd (tryCatch m (\<lambda>e. throw (h e)) s) = snd (m s)"
  by (simp add: tryCatch_def throw_def split: prod.splits sum.splits)

text \<open>
  Claim C4. When the primary strategy throws, \<open>navigateToTimesheet\<close> has announced and run
  the fallback before it returns or throws: the trace continues with the warning and the
  fallback line, and with a user identifier configured the direct URL is navigated to. If
  the fallback succeeds the call succeeds; if it throws too, the call throws one
  \<open>Error\<close> whose message contains both the message of the primary failure and that of
  the fallback failure.
\<close>

theorem navigateToTimesheet_fallback:
  assumes "uiNavigation PP s = (Inl uiError, sa)"
  shows "(\<exists>tr. snd (snd (navigateToTimesheet PP nav s)) =
            snd sa @ [ConsoleWarn (''UI navigation failed: '' @ errorMessage uiError),
                      ConsoleLog ''Attempting fallback: direct URL navigation...''] @ tr)
     \<and> (userId nav \<noteq> [] \<longrightarrow>
          Goto (getDirectTimesheetUrl nav (pp_today PP (fst sa))) 30000
            \<in> set (snd (snd (navigateToTimesheet PP nav s))))
     \<and> (urlNavigation PP nav
           (fst sa, snd sa @ [ConsoleWarn (''UI navigation failed: '' @ errorMessage uiError),
                              ConsoleLog ''Attempting fallback: direct URL navigation...''])
           = (Inr (), sb)
         \<longrightarrow> navigateToTimesheet PP nav s = (Inr (), sb))
     \<and> (urlNavigation PP nav
           (fst sa, snd sa @ [ConsoleWarn (''UI navigation failed: '' @ errorMessage uiError),
                              ConsoleLog ''Attempting fallback: direct URL navigation...''])
           = (Inl urlError, sc)
         \<longrightarrow> navigateToTimesheet PP nav s =
               (Inl (Error (''All navigation methods failed. UI: '' @ errorMessage uiError
                              @ '', URL: '' @ errorMessage urlError)), sc)
             \<and> includesStr (''All navigation methods failed. UI: '' @ errorMessage uiError
                              @ '', URL: '' @ errorMessage urlError) (errorMessage uiError)
             \<and> includesStr (''All navigation methods failed. UI: '' @ errorMessage uiError
                              @ '', URL: '' @ errorMessage urlError) (errorMessage urlError))"
proof -
  let ?start = "(fst sa, snd sa @ [ConsoleWarn (''UI navigation failed: '' @ errorMessage uiError),
                              ConsoleLog ''Attempting fallback: direct URL navigation...''])"
  note nav = navigateToTimesheet_after_ui_failure [OF assms, of nav]
  have st: "snd (navigateToTimesheet PP nav s) = snd (urlNavigation PP nav ?start)"
    unfolding nav by (rule tryCatch_throw_state)
  have one: "\<exists>tr. snd (snd (navigateToTimesheet PP nav s)) =
            snd sa @ [ConsoleWarn (''UI navigation failed: '' @ errorMessage uiError),
                      ConsoleLog ''Attempting fallback: direct URL navigation...''] @ tr"
    using urlNavigation_extends [of PP nav ?start] unfolding st by simp
  have two: "Goto (getDirectTimesheetUrl nav (pp_today PP (fst sa))) 30000
            \<in> set (snd (snd (navigateToTimesheet PP nav s)))" if "userId nav \<noteq> []"
    using urlNavigation_goto [OF that, of PP ?start] unfolding st by auto
  have three: "navigateToTimesheet PP nav s = (Inr (), sb)"
    if "urlNavigation PP nav ?start = (Inr (), sb)"
    unfolding nav using that by (simp add: tryCatch_def)
  have four: "navigateToTimesheet PP nav s =
               (Inl (Error (''All navigation methods failed. UI: '' @ errorMessage uiError
                              @ '', URL: '' @ errorMessage urlError)), sc)"
    if "urlNavigation PP nav ?start = (Inl urlError, sc)"
    unfolding nav using that by (simp add: tryCatch_def throw_def)
  have i1: "includesStr (''All navigation methods failed. UI: '' @ errorMessage uiError
                              @ '', URL: '' @ errorMessage urlError) (errorMessage uiError)"
    by (rule includesStr_middle)
  have i2: "includesStr (''All navigation methods failed. UI: '' @ errorMessage uiError
                              @ '', URL: '' @ errorMessage urlError) (errorMessage urlError)"
    using includesStr_suffix [of "''All navigation methods failed. UI: '' @ errorMessage uiError
                              @ '', URL: ''" "errorMessage urlError"] by simp
  from one two three four i1 i2 show ?thesis by blast
qed

lemmas nav_eval_defs = offlinePage_def sim_defs uiNavigation_def urlNavigation_def
  navigateToTimesheet_def newDate_def getDirectTimesheetUrl_def getCurrentDateString_def
  padStart_def digitChar_def navTimeTrackingIcon_def navViewTimesheetLink_def Let_def run_defs

lemma stringOfNat_2026: "stringOfNat 2026 = ''2026''"
  by (simp add: stringOfNat.simps digitChar_def)

lemma stringOfNat_11: "stringOfNat 11 = ''11''"
  by (simp add: stringOfNat.simps digitChar_def)

lemma stringOfNat_two: "stringOfNat 2 = ''2''"
  by (simp add: stringOfNat.simps digitChar_def)

theorem navigateToTimesheet_fallback_witness:
  "fst (uiNavigation offlinePage (''home'', [])) = Inl (Error ''waiting for selector failed'')
   \<and> fst (navigateToTimesheet offlinePage \<lparr>baseUrl = ''https://example.org'', userId = ''u1''\<rparr>
            (''home'', [])) =
       Inl (Error (''All navigation methods failed. UI: waiting for selector failed''
                    @ '', URL: net::ERR_CONNECTION_REFUSED''))
   \<and> Goto ''https://hcm-eu30.hr.cloud.sap/sf/timesheet#/timerecords/u1/2026-11-02'' 30000
        \<in> set (snd (snd (navigateToTimesheet offlinePage
                 \<lparr>baseUrl = ''https://example.org'', userId = ''u1''\<rparr> (''home'', []))))"
proof -
  let ?nav = "\<lparr>baseUrl = ''https://example.org'', userId = ''u1''\<rparr>"
  let ?s = "(''home'', []) :: string state"
  let ?e = "Error ''waiting for selector failed''"
  let ?sa = "snd (uiNavigation offlinePage ?s)"
  let ?start = "(fst ?sa, snd ?sa @ [ConsoleWarn (''UI navigation failed: '' @ errorMessage ?e),
                              ConsoleLog ''Attempting fallback: direct URL navigation...''])"
  let ?e2 = "Error ''net::ERR_CONNECTION_REFUSED''"
  let ?sc = "snd (urlNavigation offlinePage ?nav ?start)"
  have 1: "uiNavigation offlinePage ?s = (Inl ?e, ?sa)"
    by (simp add: nav_eval_defs)
  have 2: "urlNavigation offlinePage ?nav ?start = (Inl ?e2, ?sc)"
    by (simp add: nav_eval_defs)
  have 3: "userId ?nav \<noteq> []" by simp
  have 4: "getDirectTimesheetUrl ?nav (pp_today offlinePage (fst ?sa)) =
      ''https://hcm-eu30.hr.cloud.sap/sf/timesheet#/timerecords/u1/2026-11-02''"
    by (simp add: nav_eval_defs stringOfNat_2026 stringOfNat_11 stringOfNat_two)
  note T = navigateToTimesheet_fallback [OF 1, where nav = ?nav and urlError = ?e2 and sc = ?sc]
  from T 3 have g: "Goto (getDirectTimesheetUrl ?nav (pp_today offlinePage (fst ?sa))) 30000
            \<in> set (snd (snd (navigateToTimesheet offlinePage ?nav ?s)))" by blast
  from T 2 have r: "navigateToTimesheet offlinePage ?nav ?s =
               (Inl (Error (''All navigation methods failed. UI: '' @ errorMessage ?e
                              @ '', URL: '' @ errorMessage ?e2)), ?sc)" by blast
  have f: "fst (uiNavigation offlinePage ?s) = Inl ?e" by (simp add: nav_eval_defs)
  from r have r': "fst (navigateToTimesheet offlinePage ?nav ?s) =
       Inl (Error (''All navigation methods failed. UI: waiting for selector failed''
                    @ '', URL: net::ERR_CONNECTION_REFUSED''))" by simp
  from f r' g [unfolded 4] show ?thesis by blast
qed

section \<open>Authentication\<close>




lemma pollTotp_none:
  assumes "pollTotp PP sels i s = (Inr None, s')"
  shows "\<exists>tr. snd s' = snd s @ tr \<and> length (filter (\<lambda>ev. ev = Sleep 1000) tr) = 10 - i
           \<and> length (filter isQuery tr) = 3 * (10 - i)"
  using assms
proof (induction "10 - i" arbitrary: i s)
  case 0
  then have "\<not> i < 10" by simp
  with "0.prems" show ?case by (simp add: pollTotp.simps resolve_def)
next
  case (Suc n)
  then have lt: "i < 10" and n: "n = 10 - (i + 1)" by simp_all
  obtain r1 p1 where q1: "pp_query PP (totpInput sels) (fst s) = (r1, p1)"
    by (cases "pp_query PP (totpInput sels) (fst s)")
  obtain r2 p2 where q2: "pp_query PP totpByName p1 = (r2, p2)"
    by (cases "pp_query PP totpByName p1")
  obtain r3 p3 where q3: "pp_query PP totpByType p2 = (r3, p3)"
    by (cases "pp_query PP totpByType p2")
  let ?s3 = "(pp_settle PP 1000 p3,
      snd s @ [Query (totpInput sels), Query totpByName, Query totpByType,
               ConsoleLog (''TOTP field not found yet, waiting... (attempt ''
                                    @ stringOfNat (i + 1) @ ''/10)''),
               Sleep 1000])"
  from Suc.prems lt q1 q2 q3 have r: "r1 = Inr None" "r2 = Inr None" "r3 = Inr None"
    and rec: "pollTotp PP sels (i + 1) ?s3 = (Inr None, s')"
    by (auto simp: pollTotp.simps [of PP sels i] await_def andThen_def query_def call_def
        resolve_def console_log_def emit_def sleep_def split: sum.splits option.splits if_splits)
  from Suc.hyps(1) [OF n rec] obtain tr where tr: "snd s' = snd ?s3 @ tr"
    "length (filter (\<lambda>ev. ev = Sleep 1000) tr) = 10 - (i + 1)"
    "length (filter isQuery tr) = 3 * (10 - (i + 1))" by blast
  let ?tr = "[Query (totpInput sels), Query totpByName, Query totpByType,
               ConsoleLog (''TOTP field not found yet, waiting... (attempt ''
                                    @ stringOfNat (i + 1) @ ''/10)''),
               Sleep 1000] @ tr"
  have "snd s' = snd s @ ?tr" using tr(1) by simp
  moreover have "length (filter (\<lambda>ev. ev = Sleep 1000) ?tr) = 10 - i"
    using tr(2) lt by simp
  moreover have "length (filter isQuery ?tr) = 3 * (10 - i)"
    using tr(3) lt by (simp add: isQuery_def)
  ultimately show ?case by blast
qed

lemma authenticate_totp_missing:
  assumes "loginStep PP creds sels s = (Inr (), sa)"
    and "pollTotp PP sels 0 sa = (Inr None, sb)"
  shows "authenticate PP creds sels s =
    (if includesStr (pp_url PP (fst sb)) ''/companyEntry''
     then (Inl (Error (''Authentication failed: '' @ ''Ended up on companyEntry page - ''
                        @ ''TOTP was likely required but not completed'')),
           (fst sb, snd sb @ [ConsoleWarn ''WARNING: TOTP field not found after 10 seconds'',
                              ReadUrl, ConsoleLog (''Current URL: '' @ pp_url PP (fst sb)),
                              ReadUrl]))
     else (Inr (),
           (fst sb, snd sb @ [ConsoleWarn ''WARNING: TOTP field not found after 10 seconds'',
                              ReadUrl, ConsoleLog (''Current URL: '' @ pp_url PP (fst sb)),
                              ReadUrl, ConsoleLog ''Authentication completed successfully''])))"
  using assms
  by (simp add: authenticate_def totpMissing_def tryCatch_def andThen_def await_def
      console_warn_def console_log_def emit_def pageUrl_def call_def throw_def resolve_def)

text \<open>
  Claim C6. When the first part of \<open>authenticate\<close> has succeeded and the polling loop
  ends without a code field, after ten attempts of three lookups each and ten pauses of
  1 s, \<open>authenticate\<close> throws exactly when the current URL contains \<open>/companyEntry\<close>,
  with the message of that misrouted state under \<open>Authentication failed\<close>, and
  otherwise completes without error.
\<close>

theorem authenticate_without_code_field:
  assumes "loginStep PP creds sels s = (Inr (), sa)"
    and "pollTotp PP sels 0 sa = (Inr None, sb)"
  shows "(\<exists>tr. snd sb = snd sa @ tr \<and> length (filter isQuery tr) = 30
            \<and> length (filter (\<lambda>ev. ev = Sleep 1000) tr) = 10)
     \<and> (\<exists>e. fst (authenticate PP creds sels s) = Inl e)
           = includesStr (pp_url PP (fst sb)) ''/companyEntry''
     \<and> (fst (authenticate PP creds sels s) = Inr ())
           = (\<not> includesStr (pp_url PP (fst sb)) ''/companyEntry'')
     \<and> (fst (authenticate PP creds sels s) = Inr ()
         \<or> fst (authenticate PP creds sels s) =
             Inl (Error (''Authentication failed: '' @ ''Ended up on companyEntry page - ''
                        @ ''TOTP was likely required but not completed'')))"
proof -
  from pollTotp_none [OF assms(2)] have 1: "\<exists>tr. snd sb = snd sa @ tr
      \<and> length (filter isQuery tr) = 30 \<and> length (filter (\<lambda>ev. ev = Sleep 1000) tr) = 10"
    by auto
  note a = authenticate_totp_missing [OF assms]
  show ?thesis
  proof (cases "includesStr (pp_url PP (fst sb)) ''/companyEntry''")
    case True
    with a 1 show ?thesis by simp
  next
    case False
    with a 1 show ?thesis by simp
  qed
qed


lemmas auth_eval_defs = brokenPage_def sim_defs isRequired_def loginStep_def authenticate_def
  totpMissing_def totpByName_def totpByType_def Let_def run_defs pageUrl_def


theorem authenticate_without_code_field_witness:
  "fst (pollTotp (simPage [] [] [] []) simSelectors 0
          (snd (loginStep (simPage [] [] [] []) simCredentials simSelectors
                  (''https://example.org/companyEntry?company=x'', [])))) = Inr None
   \<and> fst (authenticate (simPage [] [] [] []) simCredentials simSelectors
            (''https://example.org/companyEntry?company=x'', [])) =
       Inl (Error (''Authentication failed: Ended up on companyEntry page - ''
                    @ ''TOTP was likely required but not completed''))
   \<and> fst (authenticate (simPage [] [] [] []) simCredentials simSelectors
            (''https://example.org/sf/home'', [])) = Inr ()"
proof -
  let ?S = simSelectors
  let ?C = simCredentials
  let ?N = "simPage [] [] [] []"
  let ?mis = "(''https://example.org/companyEntry?company=x'', []) :: string state"
  let ?home = "(''https://example.org/sf/home'', []) :: string state"
  let ?ma = "snd (loginStep ?N ?C ?S ?mis)"
  let ?mb = "snd (pollTotp ?N ?S 0 ?ma)"
  let ?ha = "snd (loginStep ?N ?C ?S ?home)"
  let ?hb = "snd (pollTotp ?N ?S 0 ?ha)"
  have m1: "loginStep ?N ?C ?S ?mis = (Inr (), ?ma)"
    by (simp add: auth_eval_defs)
  have m2: "pollTotp ?N ?S 0 ?ma = (Inr None, ?mb)"
    by (simp add: auth_eval_defs pollTotp.simps)
  have m3: "includesStr (pp_url ?N (fst ?mb)) ''/companyEntry''"
    by (simp add: auth_eval_defs pollTotp.simps)
  have h1: "loginStep ?N ?C ?S ?home = (Inr (), ?ha)"
    by (simp add: auth_eval_defs)
  have h2: "pollTotp ?N ?S 0 ?ha = (Inr None, ?hb)"
    by (simp add: auth_eval_defs pollTotp.simps)
  have h3: "\<not> includesStr (pp_url ?N (fst ?hb)) ''/companyEntry''"
    by (simp add: auth_eval_defs pollTotp.simps)
  from authenticate_without_code_field [OF m1 m2] m3
  have a: "fst (authenticate ?N ?C ?S ?mis) =
       Inl (Error (''Authentication failed: Ended up on companyEntry page - ''
                    @ ''TOTP was likely required but not completed''))"
    by auto
  from authenticate_without_code_field [OF h1 h2] h3
  have b: "fst (authenticate ?N ?C ?S ?home) = Inr ()"
    by auto
  have c: "fst (pollTotp ?N ?S 0 ?ma) = Inr None"
    by (simp add: auth_eval_defs pollTotp.simps)
  from a b c show ?thesis by blast
qed

section \<open>The exit code of the run\<close>

lemmas log_defs = log_info_def log_warn_def log_error_def console_log_def console_warn_def
  console_error_def emit_def

lemma mainTry_due:
  assumes "availableSlots (gcs config) \<noteq> []"
  shows "mainTry PP (Inr config) gcs s = await (runToEvents PP config (gcs config)) reportResults s"
proof -
  let ?s5 = "(fst s, snd s @ [ConsoleLog ''[INFO] Starting Time Tracking Automation'',
                       ConsoleLog ''[INFO] Loading configuration...'',
                       ConsoleLog ''[INFO] Configuration loaded successfully'',
                       ConsoleLog ''[INFO] Determining schedule for today...'',
                       ConsoleLog (''[INFO] Schedule determined: ''
                                     @ dayTypeText (dayType (gcs config)))])"
  obtain r s6 where p: "prepare PP config ?s5 = (r, s6)"
    by (cases "prepare PP config ?s5")
  show ?thesis
  proof (cases r)
    case (Inl e)
    with p assms show ?thesis
      by (simp add: mainTry_def runToEvents_def Let_def andThen_def await_def resolve_def log_defs)
  next
    case (Inr u)
    obtain r' s8 where c: "createAllEvents PP (selectors config) (availableSlots (gcs config))
        (fst s6, snd s6 @ [ConsoleLog (''[INFO] Creating ''
           @ stringOfNat (length (availableSlots (gcs config))) @ '' time events...'')]) = (r', s8)"
      by (cases "createAllEvents PP (selectors config) (availableSlots (gcs config))
        (fst s6, snd s6 @ [ConsoleLog (''[INFO] Creating ''
           @ stringOfNat (length (availableSlots (gcs config))) @ '' time events...'')])")
    from p Inr c assms show ?thesis
      by (cases r') (simp_all add: mainTry_def runToEvents_def Let_def andThen_def await_def resolve_def log_defs)
  qed
qed

lemma mainTry_none_due:
  assumes "availableSlots (gcs config) = []"
  shows "mainTry PP (Inr config) gcs s =
     (Inr NoEvents,
      (fst s, snd s @ [ConsoleLog ''[INFO] Starting Time Tracking Automation'',
                       ConsoleLog ''[INFO] Loading configuration...'',
                       ConsoleLog ''[INFO] Configuration loaded successfully'',
                       ConsoleLog ''[INFO] Determining schedule for today...'',
                       ConsoleLog (''[INFO] Schedule determined: ''
                                     @ dayTypeText (dayType (gcs config))),
                       ConsoleWarn ''[WARN] No time events available to create at this time'',
                       ConsoleLog ''[INFO] All scheduled events are in the future'']))"
  using assms
  by (simp add: mainTry_def Let_def andThen_def await_def resolve_def log_defs)

lemma reportResults_run:
  "\<exists>s'. reportResults rs s =
     (Inr (if length (filter success rs) > 0
           then Completed (length rs) (length (filter success rs))
           else ExitedWithFailure), s')"
  by (simp add: reportResults_def Let_def andThen_def await_def resolve_def log_defs)

lemma filter_success_pos: "(0 < length (filter success rs)) = (\<exists>r \<in> set rs. success r)"
  by (induction rs) auto

lemma exit_code_when_loaded:
  "fst (main PP (Inr config) gcs s) =
     (if availableSlots (gcs config) \<noteq> []
         \<and> \<not> (\<exists>r \<in> set (entryResults PP config (gcs config) s). success r)
      then 1 else 0)"
proof (cases "availableSlots (gcs config) = []")
  case True
  then show ?thesis by (simp add: main_def mainTry_none_due)
next
  case False
  obtain r s1 where run: "runToEvents PP config (gcs config) s = (r, s1)"
    by (cases "runToEvents PP config (gcs config) s")
  show ?thesis
  proof (cases r)
    case (Inl e)
    with run False show ?thesis
      by (simp add: main_def mainTry_due await_def entryResults_def)
  next
    case (Inr rs)
    from reportResults_run [of rs s1] obtain s2 where rep: "reportResults rs s1 =
     (Inr (if length (filter success rs) > 0
           then Completed (length rs) (length (filter success rs))
           else ExitedWithFailure), s2)" by blast
    from run Inr have er: "entryResults PP config (gcs config) s = rs"
      by (simp add: entryResults_def)
    show ?thesis
      using False run Inr rep filter_success_pos [of rs]
      by (simp add: main_def mainTry_due await_def er)
  qed
qed


lemma main_config_failure: "fst (main PP (Inl e) gcs s) = 1"
  by (simp add: main_def mainTry_def andThen_def await_def log_defs)

text \<open>
  Claim C8, as amended. With the configuration loaded, the exit code is 1 exactly when at
  least one entry is due and no entry result of the run is a success (also when the run
  fails before any entry is created), and 0 otherwise; so a run with one successful entry
  result exits with 0. When loading the configuration fails, the exit code is 1.
\<close>

theorem main_exit_code:
  "fst (main PP (Inr config) gcs s) =
     (if availableSlots (gcs config) \<noteq> []
         \<and> \<not> (\<exists>r \<in> set (entryResults PP config (gcs config) s). success r)
      then 1 else 0)
   \<and> ((\<exists>r \<in> set (entryResults PP config (gcs config) s). success r)
        \<longrightarrow> fst (main PP (Inr config) gcs s) = 0)
   \<and> fst (main PP (Inl e) gcs s) = 1"
  using exit_code_when_loaded [of PP config gcs s] main_config_failure [of PP e gcs s]
  by simp

text \<open>
  Claim C9. With the configuration loaded and no entry due, \<open>main\<close> ends with exit code
  0 by the early return (no events counted), the world is as it was, and all it has added
  to the trace are seven console lines: no browser is launched and no page is touched.
\<close>

theorem main_none_due:
  assumes "availableSlots (gcs config) = []"
  shows "main PP (Inr config) gcs s =
     (0, (fst s, snd s @ [ConsoleLog ''[INFO] Starting Time Tracking Automation'',
                          ConsoleLog ''[INFO] Loading configuration...'',
                          ConsoleLog ''[INFO] Configuration loaded successfully'',
                          ConsoleLog ''[INFO] Determining schedule for today...'',
                          ConsoleLog (''[INFO] Schedule determined: ''
                                        @ dayTypeText (dayType (gcs config))),
                          ConsoleWarn ''[WARN] No time events available to create at this time'',
                          ConsoleLog ''[INFO] All scheduled events are in the future'']))
     \<and> fst (mainTry PP (Inr config) gcs s) = Inr NoEvents"
  using assms
  by (simp add: main_def mainTry_none_due mainFinally_def andThen_def await_def resolve_def)

lemmas main_eval_defs = simConfig_def scheduleAt_def regularSlots_def simCredentials_def
  entryResults_def runToEvents_def prepare_def launch_def navigate_def newTOTPGenerator_def
  correctMisrouting_def createAllEvents_def createAllEventsWith_def log_info_def log_warn_def
  log_error_def auth_eval_defs nav_eval_defs eval_defs

theorem main_none_due_witness:
  "availableSlots (scheduleAt 0 simConfig) = []
   \<and> fst (main (simPage [] [] [] []) (Inr simConfig) (scheduleAt 0) (''about:blank'', [])) = 0
   \<and> Launch \<notin> set (snd (snd (main (simPage [] [] [] []) (Inr simConfig) (scheduleAt 0)
                                 (''about:blank'', []))))"
proof -
  have 0: "availableSlots (scheduleAt 0 simConfig) = []"
    by (simp add: scheduleAt_def)
  from main_none_due [where gcs = "scheduleAt 0" and config = simConfig
      and PP = "simPage [] [] [] []" and s = "(''about:blank'', [])", OF 0] 0
  show ?thesis by simp
qed

theorem main_exit_code_witness:
  "(\<exists>r \<in> set (entryResults (simPage [] [] [] []) simConfig (scheduleAt 2 simConfig)
                 (''about:blank'', [])). success r)
   \<and> fst (main (simPage [] [] [] []) (Inr simConfig) (scheduleAt 2) (''about:blank'', [])) = 0
   \<and> availableSlots (scheduleAt 2 simConfig) \<noteq> []
   \<and> fst (main (simPage [''#submit''] [] [] []) (Inr simConfig) (scheduleAt 2) (''about:blank'', [])) = 1
   \<and> fst (main (simPage [''#icon''] [] [] []) (Inl (Error ''Configuration file not found''))
             (scheduleAt 2) (''about:blank'', [])) = 1"
proof -
  let ?s = "(''about:blank'', []) :: string state"
  have ok: "\<exists>r \<in> set (entryResults (simPage [] [] [] []) simConfig (scheduleAt 2 simConfig) ?s).
      success r"
    by (simp add: main_eval_defs)
  have due: "availableSlots (scheduleAt 2 simConfig) \<noteq> []"
    by (simp add: scheduleAt_def simConfig_def regularSlots_def)
  have bad: "\<not> (\<exists>r \<in> set (entryResults (simPage [''#submit''] [] [] []) simConfig
      (scheduleAt 2 simConfig) ?s). success r)"
    by (simp add: main_eval_defs)
  from main_exit_code [of "simPage [] [] [] []" simConfig "scheduleAt 2" ?s] ok
  have 1: "fst (main (simPage [] [] [] []) (Inr simConfig) (scheduleAt 2) ?s) = 0" by blast
  from main_exit_code [of "simPage [''#submit''] [] [] []" simConfig "scheduleAt 2" ?s] due bad
  have 2: "fst (main (simPage [''#submit''] [] [] []) (Inr simConfig) (scheduleAt 2) ?s) = 1"
    by simp
  from main_exit_code [of "simPage [''#icon''] [] [] []" simConfig "scheduleAt 2" ?s
      "Error ''Configuration file not found''"]
  have 3: "fst (main (simPage [''#icon''] [] [] []) (Inl (Error ''Configuration file not found''))
             (scheduleAt 2) ?s) = 1" by blast
  from ok 1 due 2 3 show ?thesis by blast
qed

text \<open>
  Claim C8 as stated fails: when loading the configuration throws, the process exits
  with code 1 although no entry is due.
\<close>

theorem main_config_failure_exits_nonzero:
  "fst (main (simPage [] [] [] [])
          (Inl (Error (''Missing required environment variables: SAP_USER_ID. ''
                        @ ''Please check your .env file.'')))
          (scheduleAt 0) (''about:blank'', [])) = 1
   \<and> availableSlots (scheduleAt 0 simConfig) = []"
  by (simp add: main_def mainTry_def andThen_def await_def log_defs scheduleAt_def)

end
